theory Spec2Isabelle
  imports Main "HOL-Library.Word"
begin

section \<open>The OpenAI completion client of gptscript (pkg/openai/client.go)\<close>

text \<open>
  A shallow embedding of \<^verbatim>\<open>src/pkg/openai/client.go\<close>: request compilation
  (\<^verbatim>\<open>toMessages\<close>), key and seed derivation (\<^verbatim>\<open>cacheKey\<close>, \<^verbatim>\<open>seed\<close>), the
  stream assembler (\<^verbatim>\<open>appendMessage\<close>) and the orchestration (\<^verbatim>\<open>fromCache\<close>,
  \<^verbatim>\<open>call\<close>, \<^verbatim>\<open>store\<close>, \<^verbatim>\<open>Call\<close>).

  Go values are modelled by value. A pointer that may be nil is an \<open>option\<close>; a slice is a
  list (a nil slice and an empty slice are both \<open>[]\<close>, as \<^verbatim>\<open>len\<close> and \<^verbatim>\<open>range\<close> see
  them); Go's \<^verbatim>\<open>int\<close> is \<open>int\<close> (the code only compares indices and never overflows
  them); a run-time panic and a returned error are values of type \<open>err\<close>.
\<close>

subsection \<open>Errors\<close>

datatype err =
  AuthError \<comment> \<open>\<^verbatim>\<open>ValidAuth\<close>: OPENAI_API_KEY is not set\<close>
  | NoMessagesError \<comment> \<open>\<^verbatim>\<open>Call\<close>: invalid request, no messages to send to OpenAI\<close>
  | Upstream string \<comment> \<open>an error value returned by a collaborator (cache, gzip/json, transport)\<close>
  | IndexPanic \<comment> \<open>run-time panic: index or slice bound out of range\<close>

subsection \<open>Data model: package types\<close>

text \<open>
  The declarations of package \<^verbatim>\<open>types\<close> are not among the source files; the records
  below hold the fields that \<^verbatim>\<open>client.go\<close> reads and writes, with the types its uses
  force (\<^verbatim>\<open>*bool\<close>, \<^verbatim>\<open>*int\<close>, \<^verbatim>\<open>*float32\<close> as options). A \<^verbatim>\<open>float32\<close> is
  kept as its 32-bit pattern: the code only passes it on, or allocates the zero value.
\<close>

type_synonym float32 = "32 word"

record CompletionFunctionCall =
  Name :: string
  Arguments :: string

record CompletionToolCall =
  Index :: "int option"
  ID :: string
  Function :: CompletionFunctionCall

record ContentPart =
  Text :: string
  ToolCall :: "CompletionToolCall option"

record CompletionMessage =
  Role :: string
  Content :: "ContentPart list"
  MessageToolCall :: "CompletionToolCall option" \<comment> \<open>the field \<^verbatim>\<open>ToolCall\<close> of a message\<close>

text \<open>Modelled from the spec: the role constants of package \<^verbatim>\<open>types\<close> (the spec writes
  the roles \<^verbatim>\<open>system\<close>, \<^verbatim>\<open>user\<close> and \<^verbatim>\<open>assistant\<close>).\<close>

definition CompletionMessageRoleTypeSystem :: string where
  "CompletionMessageRoleTypeSystem = ''system''"

definition CompletionMessageRoleTypeUser :: string where
  "CompletionMessageRoleTypeUser = ''user''"

definition CompletionMessageRoleTypeAssistant :: string where
  "CompletionMessageRoleTypeAssistant = ''assistant''"

text \<open>Modelled from the spec: \<^verbatim>\<open>types.Text\<close>, the content list holding one text part
  (the spec's message whose sole content is a text).\<close>

definition types_Text :: "string \<Rightarrow> ContentPart list" where
  "types_Text text = [\<lparr>Text = text, ToolCall = None\<rparr>]"

text \<open>The zero value \<^verbatim>\<open>types.CompletionMessage{}\<close> and \<^verbatim>\<open>types.CompletionToolCall{}\<close>.\<close>

definition emptyToolCall :: CompletionToolCall where
  "emptyToolCall = \<lparr>Index = None, ID = [], Function = \<lparr>Name = [], Arguments = []\<rparr>\<rparr>"

definition emptyMessage :: CompletionMessage where
  "emptyMessage = \<lparr>Role = [], Content = [], MessageToolCall = None\<rparr>"

subsection \<open>Data model: the wire types of go-openai\<close>

record FunctionCall =
  fcName :: string
  fcArguments :: string

record WireToolCall =
  tcIndex :: "int option"
  tcID :: string
  tcType :: string
  tcFunction :: FunctionCall

record ChatMessagePart =
  partType :: string
  partText :: string

record ChatCompletionMessage =
  cmRole :: string
  cmContent :: string
  cmMultiContent :: "ChatMessagePart list"
  cmName :: string
  cmToolCalls :: "WireToolCall list"
  cmToolCallID :: string

record ChatCompletionStreamChoiceDelta =
  deltaContent :: string
  deltaRole :: string
  deltaToolCalls :: "WireToolCall list"

record ChatCompletionStreamChoice =
  Delta :: ChatCompletionStreamChoiceDelta

record ChatCompletionStreamResponse =
  Choices :: "ChatCompletionStreamChoice list"

text \<open>Two constants of go-openai: \<^verbatim>\<open>openai.ToolTypeFunction\<close> and
  \<^verbatim>\<open>openai.ChatMessagePartTypeText\<close>.\<close>

definition ToolTypeFunction :: string where
  "ToolTypeFunction = ''function''"

definition ChatMessagePartTypeText :: string where
  "ChatMessagePartTypeText = ''text''"

subsection \<open>The stream assembler: appendMessage\<close>

definition override :: "string \<Rightarrow> string \<Rightarrow> string" where
  "override left right = (if right \<noteq> [] then right else left)"

text \<open>The placeholder appended while \<^verbatim>\<open>len(msg.Content)-1 < idx\<close>: a tool call that
  carries its own position and nothing else.\<close>

definition placeholder :: "nat \<Rightarrow> ContentPart" where
  "placeholder n = \<lparr>Text = [], ToolCall = Some (emptyToolCall\<lparr>Index := Some (int n)\<rparr>)\<rparr>"

function grow :: "ContentPart list \<Rightarrow> int \<Rightarrow> ContentPart list" where
  "grow content idx =
     (if int (length content) - 1 < idx
      then grow (content @ [placeholder (length content)]) idx
      else content)"
  by pat_completeness auto
termination
  by (relation "measure (\<lambda>(content, idx). nat (idx + 1 - int (length content)))") auto

declare grow.simps [simp del]

text \<open>The body of the loop over \<^verbatim>\<open>delta.ToolCalls\<close>. A negative index passes the growth
  loop untouched and then \<^verbatim>\<open>msg.Content[idx]\<close> panics.\<close>

definition resolveIndex :: "WireToolCall \<Rightarrow> int" where
  "resolveIndex tool = (case tcIndex tool of Some i \<Rightarrow> i | None \<Rightarrow> 0)"

definition mergeToolCall :: "ContentPart \<Rightarrow> WireToolCall \<Rightarrow> ContentPart" where
  "mergeToolCall tc tool =
     (let c0 = (case ToolCall tc of None \<Rightarrow> emptyToolCall | Some c \<Rightarrow> c);
          c1 = (case tcIndex tool of None \<Rightarrow> c0 | Some i \<Rightarrow> c0\<lparr>Index := Some i\<rparr>);
          c2 = c1\<lparr>ID := override (ID c1) (tcID tool)\<rparr>;
          c3 = c2\<lparr>Function := \<lparr>Name = Name (Function c2) @ fcName (tcFunction tool),
                                 Arguments = Arguments (Function c2) @ fcArguments (tcFunction tool)\<rparr>\<rparr>
      in tc\<lparr>ToolCall := Some c3\<rparr>)"

definition appendToolCall :: "ContentPart list \<Rightarrow> WireToolCall \<Rightarrow> err + ContentPart list" where
  "appendToolCall content tool =
     (let idx = resolveIndex tool;
          grown = grow content idx
      in if idx < 0 then Inl IndexPanic
         else Inr (grown[nat idx := mergeToolCall (grown ! nat idx) tool]))"

fun appendToolCalls :: "ContentPart list \<Rightarrow> WireToolCall list \<Rightarrow> err + ContentPart list" where
  "appendToolCalls content [] = Inr content"
| "appendToolCalls content (tool # tools) =
     (case appendToolCall content tool of
        Inl e \<Rightarrow> Inl e
      | Inr content' \<Rightarrow> appendToolCalls content' tools)"

text \<open>The loop over \<^verbatim>\<open>msg.Content\<close> for a non-empty \<^verbatim>\<open>delta.Content\<close>: the first part
  that is not a tool call is replaced by a pure text part; \<open>None\<close> is \<^verbatim>\<open>!found\<close>.\<close>

fun appendText :: "ContentPart list \<Rightarrow> string \<Rightarrow> ContentPart list option" where
  "appendText [] d = None"
| "appendText (p # ps) d =
     (if ToolCall p \<noteq> None then map_option ((#) p) (appendText ps d)
      else Some (\<lparr>Text = Text p @ d, ToolCall = None\<rparr> # ps))"

definition appendContent :: "ContentPart list \<Rightarrow> string \<Rightarrow> ContentPart list" where
  "appendContent content d =
     (if d \<noteq> [] then
        (case appendText content d of
           Some content' \<Rightarrow> content'
         | None \<Rightarrow> content @ [\<lparr>Text = d, ToolCall = None\<rparr>])
      else content)"

definition appendMessage ::
  "CompletionMessage \<Rightarrow> ChatCompletionStreamResponse \<Rightarrow> err + CompletionMessage" where
  "appendMessage msg response =
     (case Choices response of
        [] \<Rightarrow> Inr msg
      | choice # _ \<Rightarrow>
          (let delta = Delta choice;
               msg1 = msg\<lparr>Role := override (Role msg) (deltaRole delta)\<rparr>
           in case appendToolCalls (Content msg1) (deltaToolCalls delta) of
                Inl e \<Rightarrow> Inl e
              | Inr content \<Rightarrow>
                  Inr (msg1\<lparr>Content := appendContent content (deltaContent delta)\<rparr>)))"

text \<open>Folding a chunk sequence, as the loop of \<^verbatim>\<open>Call\<close> does from the zero message; a
  panic in one step ends the fold.\<close>

fun appendMessages ::
  "CompletionMessage \<Rightarrow> ChatCompletionStreamResponse list \<Rightarrow> err + CompletionMessage" where
  "appendMessages msg [] = Inr msg"
| "appendMessages msg (response # responses) =
     (case appendMessage msg response of
        Inl e \<Rightarrow> Inl e
      | Inr msg' \<Rightarrow> appendMessages msg' responses)"

subsection \<open>Collaborators\<close>

text \<open>
  Packages \<^verbatim>\<open>system\<close>, \<^verbatim>\<open>hash\<close> and \<^verbatim>\<open>cache\<close>, the gzip and JSON codecs and
  the transport are called by \<^verbatim>\<open>client.go\<close> and are not part of it. They are the fields of
  one record, and every function below takes it as its first argument.
    \<^item> \<open>cache_Get\<close> answers \<^verbatim>\<open>c.cache.Get(key)\<close>: an error, not found (\<open>Inr None\<close>) or the
      stored bytes; \<open>cache_Store\<close> answers \<^verbatim>\<open>c.cache.Store(key, bytes)\<close>: \<open>None\<close> is nil.
    \<^item> \<open>cache_IsNoCache\<close> is \<^verbatim>\<open>cache.IsNoCache(ctx)\<close> for the context of the call.
    \<^item> \<open>gzip_json_encode\<close> is the gzip writer over the JSON encoder of \<^verbatim>\<open>store\<close>,
      \<open>gzip_json_decode\<close> the gzip reader under the JSON decoder of \<^verbatim>\<open>fromCache\<close>.
    \<^item> \<open>CreateChatCompletionStream\<close> answers an error, or the stream. A run of
      \<^verbatim>\<open>call\<close> that returns has read finitely many chunks from \<^verbatim>\<open>Recv\<close> and then one
      result that is not a chunk (\<^verbatim>\<open>io.EOF\<close> or another error); the stream is given as
      that reading: the chunks, in order, and the end. A stream that never ends keeps the
      loop of \<^verbatim>\<open>call\<close> running, \<^verbatim>\<open>Call\<close> does not return, and no outcome stands for it.
  Logging (\<^verbatim>\<open>slog.Debug\<close>) is left out.
\<close>

type_synonym bytes = "8 word list"

datatype recv_end = EOF | RecvError err

record FunctionDefinition =
  defName :: string
  defDescription :: string
  defParameters :: string \<comment> \<open>the parameter schema, an object the code hands on unread\<close>

record Tool =
  toolType :: string
  toolFunction :: FunctionDefinition

record ChatCompletionRequest =
  reqModel :: string
  reqMessages :: "ChatCompletionMessage list"
  reqMaxTokens :: int
  reqTemperature :: "float32 option"
  reqUser :: string
  reqResponseFormat :: "string option" \<comment> \<open>the \<^verbatim>\<open>Type\<close> of the response format, when set\<close>
  reqTools :: "Tool list"
  reqSeed :: "int option"
  reqStream :: bool

record env =
  system_InternalSystemPrompt :: string
  system_IsDefaultPrompt :: "string \<Rightarrow> string option"
  hash_ID :: "string list \<Rightarrow> string"
  hash_Encode :: "string \<Rightarrow> ChatCompletionRequest \<Rightarrow> string"
  hash_Seed :: "ChatCompletionRequest \<Rightarrow> int"
  cache_IsNoCache :: bool
  cache_Get :: "string \<Rightarrow> err + bytes option"
  cache_Store :: "string \<Rightarrow> bytes \<Rightarrow> err option"
  gzip_json_encode :: "ChatCompletionStreamResponse list \<Rightarrow> err + bytes"
  gzip_json_decode :: "bytes \<Rightarrow> err + ChatCompletionStreamResponse list"
  CreateChatCompletionStream ::
    "ChatCompletionRequest \<Rightarrow> err + ChatCompletionStreamResponse list \<times> recv_end"

subsection \<open>Requests, the client and the status events\<close>

record CompletionFunctionDefinition =
  fdName :: string
  fdDescription :: string
  fdParameters :: string

record CompletionTool =
  ctFunction :: CompletionFunctionDefinition

record CompletionRequest =
  Model :: string
  InternalSystemPrompt :: "bool option"
  Tools :: "CompletionTool list"
  Messages :: "CompletionMessage list"
  MaxTokens :: int
  Temperature :: "float32 option"
  JSONResponse :: bool
  Cache :: "bool option"

record Client =
  defaultModel :: string
  invalidAuth :: bool
  cacheKeyBase :: string
  setSeed :: bool
  user :: string

text \<open>\<^verbatim>\<open>types.CompletionStatus\<close>: the fields of type \<^verbatim>\<open>any\<close> are \<open>None\<close> when unset.\<close>

record CompletionStatus =
  CompletionID :: string
  Request :: "ChatCompletionRequest option"
  Response :: "CompletionMessage option"
  Cached :: bool
  Chunks :: "ChatCompletionStreamResponse list option"
  PartialResponse :: "CompletionMessage option"

text \<open>What a call does to the world, in order: a status sent on the sink, a lookup, a
  write to the cache store, the opening and the closing of the live stream.\<close>

datatype event =
  Status CompletionStatus
  | CacheGet string
  | CacheStore string bytes
  | CreateStream ChatCompletionRequest
  | StreamClose

record outcome =
  events :: "event list"
  counter :: "64 word" \<comment> \<open>the process-wide \<^verbatim>\<open>completionID\<close> after the call\<close>
  returned :: "err + CompletionMessage"

subsection \<open>Key and seed derivation\<close>

definition cacheKey :: "env \<Rightarrow> Client \<Rightarrow> ChatCompletionRequest \<Rightarrow> string" where
  "cacheKey env c request = hash_Encode env (cacheKeyBase c) request"

definition stripToolCallIDs :: "ChatCompletionMessage \<Rightarrow> ChatCompletionMessage" where
  "stripToolCallIDs msg =
     msg\<lparr>cmToolCalls := map (\<lambda>tool. tool\<lparr>tcID := []\<rparr>) (cmToolCalls msg), cmToolCallID := []\<rparr>"

definition seed :: "env \<Rightarrow> ChatCompletionRequest \<Rightarrow> int" where
  "seed env request =
     hash_Seed env (request\<lparr>reqMessages := map stripToolCallIDs (reqMessages request)\<rparr>)"

subsection \<open>Request compilation: toMessages\<close>

definition toToolCall :: "CompletionToolCall \<Rightarrow> WireToolCall" where
  "toToolCall call =
     \<lparr>tcIndex = Index call, tcID = ID call, tcType = ToolTypeFunction,
      tcFunction = \<lparr>fcName = Name (Function call), fcArguments = Arguments (Function call)\<rparr>\<rparr>"

fun strings_Join :: "string list \<Rightarrow> string \<Rightarrow> string" where
  "strings_Join [] sep = []"
| "strings_Join [x] sep = x"
| "strings_Join (x # y # ys) sep = x @ sep @ strings_Join (y # ys) sep"

text \<open>The first loop of \<^verbatim>\<open>toMessages\<close>, over \<^verbatim>\<open>request.Messages\<close>, with its two
  accumulators. \<^verbatim>\<open>message.Content[0]\<close> panics on a system message without content.\<close>

fun coalesce ::
  "CompletionMessage list \<Rightarrow> string list \<Rightarrow> CompletionMessage list \<Rightarrow>
   err + string list \<times> CompletionMessage list" where
  "coalesce [] systemPrompts msgs = Inr (systemPrompts, msgs)"
| "coalesce (message # rest) systemPrompts msgs =
     (if Role message = CompletionMessageRoleTypeSystem then
        (if (case rest of
               [] \<Rightarrow> True
             | successor # _ \<Rightarrow>
                 Role successor \<noteq> CompletionMessageRoleTypeSystem \<and>
                 Role successor \<noteq> CompletionMessageRoleTypeUser)
         then coalesce rest systemPrompts (msgs @ [message\<lparr>Role := CompletionMessageRoleTypeUser\<rparr>])
         else (case Content message of
                 [] \<Rightarrow> Inl IndexPanic
               | part # _ \<Rightarrow> coalesce rest (systemPrompts @ [Text part]) msgs))
      else coalesce rest systemPrompts (msgs @ [message]))"

text \<open>The loop over \<^verbatim>\<open>message.Content\<close> that fills the tool calls and the text parts.\<close>

fun addContent :: "ChatCompletionMessage \<Rightarrow> ContentPart list \<Rightarrow> ChatCompletionMessage" where
  "addContent chatMessage [] = chatMessage"
| "addContent chatMessage (content # rest) =
     (let m1 = (case ToolCall content of
                  None \<Rightarrow> chatMessage
                | Some call \<Rightarrow>
                    chatMessage\<lparr>cmToolCalls := cmToolCalls chatMessage @ [toToolCall call]\<rparr>);
          m2 = (if Text content \<noteq> [] then
                  m1\<lparr>cmMultiContent := cmMultiContent m1 @
                        [\<lparr>partType = ChatMessagePartTypeText, partText = Text content\<rparr>]\<rparr>
                else m1)
      in addContent m2 rest)"

text \<open>The body of the second loop; \<open>None\<close> is \<^verbatim>\<open>continue\<close>: nothing is appended.\<close>

definition toChatMessage :: "env \<Rightarrow> CompletionMessage \<Rightarrow> ChatCompletionMessage option" where
  "toChatMessage env message =
     (let m0 = \<lparr>cmRole = Role message, cmContent = [], cmMultiContent = [], cmName = [],
                cmToolCalls = [], cmToolCallID = []\<rparr>;
          m1 = (case MessageToolCall message of
                  None \<Rightarrow> m0
                | Some call \<Rightarrow> m0\<lparr>cmToolCallID := ID call, cmName := Name (Function call)\<rparr>);
          m2 = addContent m1 (Content message)
      in case cmMultiContent m2 of
           [part] \<Rightarrow>
             (if partType part = ChatMessagePartTypeText then
                (if partText part = ''.'' \<or> partText part = ''{}'' then None
                 else (let m3 = m2\<lparr>cmContent := partText part, cmMultiContent := []\<rparr>
                       in case system_IsDefaultPrompt env (cmContent m3) of
                            Some prompt \<Rightarrow> Some (m3\<lparr>cmContent := prompt\<rparr>)
                          | None \<Rightarrow> Some m3))
              else Some m2)
         | _ \<Rightarrow> Some m2)"

definition toMessages :: "env \<Rightarrow> CompletionRequest \<Rightarrow> err + ChatCompletionMessage list" where
  "toMessages env request =
     (let systemPrompts =
            (if InternalSystemPrompt request = None \<or> InternalSystemPrompt request = Some True
             then [system_InternalSystemPrompt env] else [])
      in case coalesce (Messages request) systemPrompts [] of
           Inl e \<Rightarrow> Inl e
         | Inr (systemPrompts, msgs) \<Rightarrow>
             (let msgs' =
                    (if systemPrompts \<noteq> [] then
                       \<lparr>Role = CompletionMessageRoleTypeSystem,
                        Content = types_Text (strings_Join systemPrompts [CHR 0x0A]),
                        MessageToolCall = None\<rparr> # msgs
                     else msgs)
              in Inr (List.map_filter (toChatMessage env) msgs')))"

subsection \<open>Orchestration: fromCache, store, call and Call\<close>

text \<open>\<^verbatim>\<open>fmt.Sprint\<close> of an \<^verbatim>\<open>int64\<close>: its decimal digits, after a minus sign when
  negative.\<close>

fun decimal :: "nat \<Rightarrow> string" where
  "decimal n =
     (if n < 10 then [''0123456789'' ! n]
      else decimal (n div 10) @ [''0123456789'' ! (n mod 10)])"

declare decimal.simps [simp del]

definition fmt_Sprint :: "int \<Rightarrow> string" where
  "fmt_Sprint i = (if i < 0 then CHR ''-'' # decimal (nat (- i)) else decimal (nat i))"

definition ValidAuth :: "Client \<Rightarrow> err option" where
  "ValidAuth c = (if invalidAuth c then Some AuthError else None)"

text \<open>The lookup. \<open>Inr None\<close> is \<^verbatim>\<open>found = false\<close>, with or without a lookup made. The
  last line of the source returns the named result \<^verbatim>\<open>result\<close> beside the decoder's
  error; the result is read after the decoder has filled it.\<close>

definition fromCache ::
  "env \<Rightarrow> Client \<Rightarrow> CompletionRequest \<Rightarrow> ChatCompletionRequest \<Rightarrow>
   event list \<times> (err + ChatCompletionStreamResponse list option)" where
  "fromCache env c messageRequest request =
     (if cache_IsNoCache env then ([], Inr None)
      else if Cache messageRequest = Some False then ([], Inr None)
      else (let key = cacheKey env c request
            in case cache_Get env key of
                 Inl e \<Rightarrow> ([CacheGet key], Inl e)
               | Inr None \<Rightarrow> ([CacheGet key], Inr None)
               | Inr (Some cached) \<Rightarrow>
                   (case gzip_json_decode env cached of
                      Inl e \<Rightarrow> ([CacheGet key], Inl e)
                    | Inr result \<Rightarrow> ([CacheGet key], Inr (Some result)))))"

definition store ::
  "env \<Rightarrow> string \<Rightarrow> ChatCompletionStreamResponse list \<Rightarrow> event list \<times> err option" where
  "store env key responses =
     (if cache_IsNoCache env then ([], None)
      else (case gzip_json_encode env responses of
              Inl e \<Rightarrow> ([], Some e)
            | Inr buf \<Rightarrow> ([CacheStore key buf], cache_Store env key buf)))"

definition partialStatus :: "string \<Rightarrow> CompletionMessage \<Rightarrow> CompletionStatus" where
  "partialStatus transactionID partialMessage =
     \<lparr>CompletionID = transactionID, Request = None, Response = None, Cached = False,
      Chunks = None, PartialResponse = Some partialMessage\<rparr>"

definition waitingMessage :: CompletionMessage where
  "waitingMessage =
     \<lparr>Role = CompletionMessageRoleTypeAssistant,
      Content = types_Text ''Waiting for model response...'', MessageToolCall = None\<rparr>"

text \<open>The loop of \<^verbatim>\<open>call\<close> over the chunks that \<^verbatim>\<open>Recv\<close> returns, with its two
  variables \<^verbatim>\<open>partialMessage\<close> and \<^verbatim>\<open>responses\<close>. The sink is not nil when the loop is
  reached (the send before the loop would block for ever on a nil channel), so the guard
  \<^verbatim>\<open>partial != nil\<close> holds. A panic of \<^verbatim>\<open>appendMessage\<close> ends the loop. A status
  carries the partial message as it is when the status is sent (the source sends a pointer
  to the one variable that later steps overwrite).\<close>

fun recvLoop ::
  "string \<Rightarrow> CompletionMessage \<Rightarrow> ChatCompletionStreamResponse list \<Rightarrow>
   ChatCompletionStreamResponse list \<Rightarrow>
   event list \<times> (err + ChatCompletionStreamResponse list)" where
  "recvLoop transactionID partialMessage responses [] = ([], Inr responses)"
| "recvLoop transactionID partialMessage responses (response # rest) =
     (case appendMessage partialMessage response of
        Inl e \<Rightarrow> ([], Inl e)
      | Inr partialMessage' \<Rightarrow>
          (case recvLoop transactionID partialMessage' (responses @ [response]) rest of
             (evs, r) \<Rightarrow> (Status (partialStatus transactionID partialMessage') # evs, r)))"

text \<open>The deferred \<^verbatim>\<open>stream.Close()\<close> runs when \<^verbatim>\<open>call\<close> leaves, after the operands of
  the return statement (the write to the store among them), and also when it panics.\<close>

definition call ::
  "env \<Rightarrow> Client \<Rightarrow> ChatCompletionRequest \<Rightarrow> string \<Rightarrow>
   event list \<times> (err + ChatCompletionStreamResponse list)" where
  "call env c request transactionID =
     (let key = cacheKey env c request;
          request' = request\<lparr>reqStream := True\<rparr>;
          opening = [Status (partialStatus transactionID waitingMessage), CreateStream request']
      in case CreateChatCompletionStream env request' of
           Inl e \<Rightarrow> (opening, Inl e)
         | Inr (chunks, fin) \<Rightarrow>
             (case recvLoop transactionID emptyMessage [] chunks of
                (evs, Inl e) \<Rightarrow> (opening @ evs @ [StreamClose], Inl e)
              | (evs, Inr responses) \<Rightarrow>
                  (case fin of
                     RecvError e \<Rightarrow> (opening @ evs @ [StreamClose], Inl e)
                   | EOF \<Rightarrow>
                       (case store env key responses of
                          (sevs, Some e) \<Rightarrow> (opening @ evs @ sevs @ [StreamClose], Inl e)
                        | (sevs, None) \<Rightarrow>
                            (opening @ evs @ sevs @ [StreamClose], Inr responses)))))"

text \<open>The wire request that \<^verbatim>\<open>Call\<close> builds from the compiled messages.\<close>

definition toTool :: "CompletionTool \<Rightarrow> Tool" where
  "toTool tool =
     \<lparr>toolType = ToolTypeFunction,
      toolFunction = \<lparr>defName = fdName (ctFunction tool),
                      defDescription = fdDescription (ctFunction tool),
                      defParameters = fdParameters (ctFunction tool)\<rparr>\<rparr>"

definition buildRequest ::
  "Client \<Rightarrow> CompletionRequest \<Rightarrow> ChatCompletionMessage list \<Rightarrow> ChatCompletionRequest" where
  "buildRequest c messageRequest msgs =
     \<lparr>reqModel = Model messageRequest,
      reqMessages = msgs,
      reqMaxTokens = MaxTokens messageRequest,
      reqTemperature = (case Temperature messageRequest of None \<Rightarrow> Some 0 | Some t \<Rightarrow> Some t),
      reqUser = user c,
      reqResponseFormat = (if JSONResponse messageRequest then Some ''json_object'' else None),
      reqTools = map toTool (Tools messageRequest),
      reqSeed = None,
      reqStream = False\<rparr>"

text \<open>The backfill of the tool-call ids. \<^verbatim>\<open>hash.ID(...)[:8]\<close> panics on a hash of fewer
  than 8 bytes.\<close>

definition backfillPart :: "env \<Rightarrow> ContentPart \<Rightarrow> err + ContentPart" where
  "backfillPart env content =
     (case ToolCall content of
        None \<Rightarrow> Inr content
      | Some tc \<Rightarrow>
          (if ID tc = [] then
             (let h = hash_ID env [Name (Function tc), Arguments (Function tc)]
              in if length h < 8 then Inl IndexPanic
                 else Inr (content\<lparr>ToolCall := Some (tc\<lparr>ID := ''call_'' @ take 8 h\<rparr>)\<rparr>))
           else Inr content))"

fun backfill :: "env \<Rightarrow> ContentPart list \<Rightarrow> err + ContentPart list" where
  "backfill env [] = Inr []"
| "backfill env (content # rest) =
     (case backfillPart env content of
        Inl e \<Rightarrow> Inl e
      | Inr content' \<Rightarrow>
          (case backfill env rest of
             Inl e \<Rightarrow> Inl e
           | Inr rest' \<Rightarrow> Inr (content' # rest')))"

definition submittedStatus :: "string \<Rightarrow> ChatCompletionRequest \<Rightarrow> CompletionStatus" where
  "submittedStatus transactionID request =
     \<lparr>CompletionID = transactionID, Request = Some request, Response = None, Cached = False,
      Chunks = None, PartialResponse = None\<rparr>"

definition finalStatus ::
  "string \<Rightarrow> ChatCompletionStreamResponse list \<Rightarrow> CompletionMessage \<Rightarrow> bool \<Rightarrow>
   CompletionStatus" where
  "finalStatus transactionID response result cacheResponse =
     \<lparr>CompletionID = transactionID, Request = None, Response = Some result, Cached = cacheResponse,
      Chunks = Some response, PartialResponse = None\<rparr>"

text \<open>The end of \<^verbatim>\<open>Call\<close>, from the fold of the chunks to the return; \<open>evs\<close> are the
  events so far.\<close>

definition finish ::
  "env \<Rightarrow> string \<Rightarrow> 64 word \<Rightarrow> event list \<Rightarrow> ChatCompletionStreamResponse list \<Rightarrow> bool \<Rightarrow>
   outcome" where
  "finish env transactionID n evs response cacheResponse =
     (case appendMessages emptyMessage response of
        Inl e \<Rightarrow> \<lparr>events = evs, counter = n, returned = Inl e\<rparr>
      | Inr result \<Rightarrow>
          (case backfill env (Content result) of
             Inl e \<Rightarrow> \<lparr>events = evs, counter = n, returned = Inl e\<rparr>
           | Inr content \<Rightarrow>
               (let result' = result\<lparr>Content := content\<rparr>
                in \<lparr>events = evs @ [Status (finalStatus transactionID response result' cacheResponse)],
                    counter = n, returned = Inr result'\<rparr>)))"

text \<open>The three values \<^verbatim>\<open>Call\<close> computes on its way: the request with the model
  defaulted, the transaction id minted from the counter, the wire request with its seed.\<close>

definition withDefaultModel :: "Client \<Rightarrow> CompletionRequest \<Rightarrow> CompletionRequest" where
  "withDefaultModel c messageRequest =
     (if Model messageRequest = [] then messageRequest\<lparr>Model := defaultModel c\<rparr>
      else messageRequest)"

definition mintID :: "64 word \<Rightarrow> string" where
  "mintID completionID = fmt_Sprint (sint (completionID + 1))"

definition withSeed :: "env \<Rightarrow> Client \<Rightarrow> ChatCompletionRequest \<Rightarrow> ChatCompletionRequest" where
  "withSeed env c request =
     (if setSeed c then request\<lparr>reqSeed := Some (seed env request)\<rparr> else request)"

definition Call :: "env \<Rightarrow> Client \<Rightarrow> 64 word \<Rightarrow> CompletionRequest \<Rightarrow> outcome" where
  "Call env c completionID messageRequest =
     (case ValidAuth c of
        Some e \<Rightarrow> \<lparr>events = [], counter = completionID, returned = Inl e\<rparr>
      | None \<Rightarrow>
          (let messageRequest' = withDefaultModel c messageRequest
           in case toMessages env messageRequest' of
                Inl e \<Rightarrow> \<lparr>events = [], counter = completionID, returned = Inl e\<rparr>
              | Inr msgs \<Rightarrow>
                  (if msgs = [] then
                     \<lparr>events = [], counter = completionID, returned = Inl NoMessagesError\<rparr>
                   else
                     (let request = buildRequest c messageRequest' msgs;
                          n = completionID + 1;
                          transactionID = mintID completionID;
                          submitted = [Status (submittedStatus transactionID request)];
                          request' = withSeed env c request
                      in case fromCache env c messageRequest' request' of
                           (gevs, Inl e) \<Rightarrow>
                             \<lparr>events = submitted @ gevs, counter = n, returned = Inl e\<rparr>
                         | (gevs, Inr (Some response)) \<Rightarrow>
                             finish env transactionID n (submitted @ gevs) response True
                         | (gevs, Inr None) \<Rightarrow>
                             (case call env c request' transactionID of
                                (cevs, Inl e) \<Rightarrow>
                                  \<lparr>events = submitted @ gevs @ cevs, counter = n, returned = Inl e\<rparr>
                              | (cevs, Inr response) \<Rightarrow>
                                  finish env transactionID n (submitted @ gevs @ cevs) response
                                    False)))))"

subsection \<open>Predicates of the specification\<close>

text \<open>A content part is exclusive when it does not carry both a text and a tool call.\<close>

definition exclusive :: "ContentPart \<Rightarrow> bool" where
  "exclusive p = (Text p = [] \<or> ToolCall p = None)"

text \<open>A tool-call fragment hits a text part when its resolved index is the position of a
  part that is not a tool call; a chunk sequence avoids the text parts when no fragment of
  any chunk does so in the message folded up to that chunk.\<close>

definition hitsText :: "ContentPart list \<Rightarrow> WireToolCall \<Rightarrow> bool" where
  "hitsText content tool =
     (0 \<le> resolveIndex tool \<and> resolveIndex tool < int (length content) \<and>
      ToolCall (content ! nat (resolveIndex tool)) = None)"

fun avoidsText :: "CompletionMessage \<Rightarrow> ChatCompletionStreamResponse list \<Rightarrow> bool" where
  "avoidsText msg [] = True"
| "avoidsText msg (response # responses) =
     ((case Choices response of
         [] \<Rightarrow> True
       | choice # _ \<Rightarrow> list_all (\<lambda>tool. \<not> hitsText (Content msg) tool) (deltaToolCalls (Delta choice))) \<and>
      (case appendMessage msg response of
         Inl e \<Rightarrow> True
       | Inr msg' \<Rightarrow> avoidsText msg' responses))"


text \<open>Two wire requests are the same up to tool-call ids when they agree on every field but
  the \<^verbatim>\<open>ToolCallID\<close> of their messages and the \<^verbatim>\<open>ID\<close> of the tool calls nested in
  them.\<close>

definition sameToolCallUpToID :: "WireToolCall \<Rightarrow> WireToolCall \<Rightarrow> bool" where
  "sameToolCallUpToID a b =
     (tcIndex a = tcIndex b \<and> tcType a = tcType b \<and> tcFunction a = tcFunction b)"

definition sameMessageUpToIDs :: "ChatCompletionMessage \<Rightarrow> ChatCompletionMessage \<Rightarrow> bool" where
  "sameMessageUpToIDs a b =
     (cmRole a = cmRole b \<and> cmContent a = cmContent b \<and> cmMultiContent a = cmMultiContent b \<and>
      cmName a = cmName b \<and> list_all2 sameToolCallUpToID (cmToolCalls a) (cmToolCalls b))"

definition sameRequestUpToIDs :: "ChatCompletionRequest \<Rightarrow> ChatCompletionRequest \<Rightarrow> bool" where
  "sameRequestUpToIDs r1 r2 =
     (reqModel r1 = reqModel r2 \<and> list_all2 sameMessageUpToIDs (reqMessages r1) (reqMessages r2) \<and>
      reqMaxTokens r1 = reqMaxTokens r2 \<and> reqTemperature r1 = reqTemperature r2 \<and>
      reqUser r1 = reqUser r2 \<and> reqResponseFormat r1 = reqResponseFormat r2 \<and>
      reqTools r1 = reqTools r2 \<and> reqSeed r1 = reqSeed r2 \<and> reqStream r1 = reqStream r2)"

text \<open>The first loop of \<^verbatim>\<open>toMessages\<close> in the words of a filter: each message is
  paired with its successor; a system message is merged when its successor is a system or
  a user message; every other message is kept, a system message among them as a user
  message.\<close>

fun withSuccessor :: "'a list \<Rightarrow> ('a \<times> 'a option) list" where
  "withSuccessor [] = []"
| "withSuccessor [m] = [(m, None)]"
| "withSuccessor (m # s # rest) = (m, Some s) # withSuccessor (s # rest)"

definition merged :: "CompletionMessage \<times> CompletionMessage option \<Rightarrow> bool" where
  "merged ms =
     (Role (fst ms) = CompletionMessageRoleTypeSystem \<and>
      (case snd ms of
         None \<Rightarrow> False
       | Some s \<Rightarrow> Role s = CompletionMessageRoleTypeSystem \<or> Role s = CompletionMessageRoleTypeUser))"

definition demote :: "CompletionMessage \<Rightarrow> CompletionMessage" where
  "demote m =
     (if Role m = CompletionMessageRoleTypeSystem then m\<lparr>Role := CompletionMessageRoleTypeUser\<rparr>
      else m)"

definition firstText :: "CompletionMessage \<Rightarrow> string" where
  "firstText m = (case Content m of [] \<Rightarrow> [] | part # _ \<Rightarrow> Text part)"

definition defaultPrompts :: "env \<Rightarrow> CompletionRequest \<Rightarrow> string list" where
  "defaultPrompts env request =
     (if InternalSystemPrompt request = Some False then [] else [system_InternalSystemPrompt env])"

definition hoistedPrompts :: "env \<Rightarrow> CompletionRequest \<Rightarrow> string list" where
  "hoistedPrompts env request =
     defaultPrompts env request @
     map (\<lambda>ms. firstText (fst ms)) (filter merged (withSuccessor (Messages request)))"

definition keptMessages :: "CompletionRequest \<Rightarrow> CompletionMessage list" where
  "keptMessages request =
     map (\<lambda>ms. demote (fst ms)) (filter (\<lambda>ms. \<not> merged ms) (withSuccessor (Messages request)))"

definition systemLeader :: "string list \<Rightarrow> CompletionMessage list" where
  "systemLeader prompts =
     (if prompts = [] then []
      else [\<lparr>Role = CompletionMessageRoleTypeSystem,
             Content = types_Text (strings_Join prompts [CHR 0x0A]), MessageToolCall = None\<rparr>])"

text \<open>What the merged system message compiles to: nothing when there is no prompt to join or
  when the joined text is one of the two sentinel texts, and otherwise one system message
  with scalar content.\<close>

definition compiledLeader :: "env \<Rightarrow> string list \<Rightarrow> ChatCompletionMessage list" where
  "compiledLeader env prompts =
     (if prompts = [] then []
      else (let t = strings_Join prompts [CHR 0x0A]
            in if t = ''.'' \<or> t = ''{}'' then []
               else [\<lparr>cmRole = CompletionMessageRoleTypeSystem,
                      cmContent = (if t = [] then []
                                   else (case system_IsDefaultPrompt env t of
                                           Some prompt \<Rightarrow> prompt
                                         | None \<Rightarrow> t)),
                      cmMultiContent = [], cmName = [], cmToolCalls = [],
                      cmToolCallID = []\<rparr>]))"

text \<open>The prompts of claim C1 as stated: the default prompt and the merged messages among
  the consecutive leading system messages only.\<close>

definition leadingPrompts :: "env \<Rightarrow> CompletionRequest \<Rightarrow> string list" where
  "leadingPrompts env request =
     defaultPrompts env request @
     map (\<lambda>ms. firstText (fst ms))
       (filter merged
          (takeWhile (\<lambda>ms. Role (fst ms) = CompletionMessageRoleTypeSystem)
             (withSuccessor (Messages request))))"

definition mergedHaveContent :: "CompletionMessage list \<Rightarrow> bool" where
  "mergedHaveContent msgs = list_all (\<lambda>ms. merged ms \<longrightarrow> Content (fst ms) \<noteq> []) (withSuccessor msgs)"

text \<open>The non-empty texts among the content parts of a message.\<close>

definition textsOf :: "CompletionMessage \<Rightarrow> string list" where
  "textsOf message = filter (\<lambda>t. t \<noteq> []) (map Text (Content message))"


text \<open>The messages folded so far after each chunk of a sequence, and the events of the
  live path up to the end of the stream: the waiting placeholder, the opening of the
  stream, one partial status per chunk.\<close>

definition partialsFrom ::
  "CompletionMessage \<Rightarrow> ChatCompletionStreamResponse list \<Rightarrow> CompletionMessage list" where
  "partialsFrom msg chunks =
     map (\<lambda>k. projr (appendMessages msg (take k chunks))) [1 ..< Suc (length chunks)]"

definition liveOpening :: "string \<Rightarrow> ChatCompletionRequest \<Rightarrow> ChatCompletionStreamResponse list \<Rightarrow> event list" where
  "liveOpening transactionID request chunks =
     [Status (partialStatus transactionID waitingMessage), CreateStream (request\<lparr>reqStream := True\<rparr>)] @
     map (\<lambda>m. Status (partialStatus transactionID m)) (partialsFrom emptyMessage chunks)"




text \<open>The lookup and the write of a call that takes the live path and succeeds.\<close>

definition lookupEvents :: "env \<Rightarrow> CompletionRequest \<Rightarrow> string \<Rightarrow> event list" where
  "lookupEvents env messageRequest key =
     (if cache_IsNoCache env \<or> Cache messageRequest = Some False then [] else [CacheGet key])"


fun isCacheGet :: "event \<Rightarrow> bool" where
  "isCacheGet (CacheGet key) = True"
| "isCacheGet ev = False"

fun isCacheStore :: "event \<Rightarrow> bool" where
  "isCacheStore (CacheStore key buf) = True"
| "isCacheStore ev = False"

fun isCreateStream :: "event \<Rightarrow> bool" where
  "isCreateStream (CreateStream request) = True"
| "isCreateStream ev = False"

text \<open>The id a tool call is given when it has none.\<close>

definition assignID :: "env \<Rightarrow> ContentPart \<Rightarrow> ContentPart" where
  "assignID env part =
     (case ToolCall part of
        None \<Rightarrow> part
      | Some tc \<Rightarrow>
          (if ID tc = [] then
             part\<lparr>ToolCall := Some (tc\<lparr>ID := ''call_'' @
               take 8 (hash_ID env [Name (Function tc), Arguments (Function tc)])\<rparr>)\<rparr>
           else part))"

subsection \<open>Sample inputs\<close>

definition textChunk :: "string \<Rightarrow> ChatCompletionStreamResponse" where
  "textChunk s =
     \<lparr>Choices = [\<lparr>Delta = \<lparr>deltaContent = s, deltaRole = [], deltaToolCalls = []\<rparr>\<rparr>]\<rparr>"

definition toolFragment :: "int option \<Rightarrow> string \<Rightarrow> string \<Rightarrow> string \<Rightarrow> WireToolCall" where
  "toolFragment i callID name args =
     \<lparr>tcIndex = i, tcID = callID, tcType = ToolTypeFunction,
      tcFunction = \<lparr>fcName = name, fcArguments = args\<rparr>\<rparr>"

definition toolChunk :: "WireToolCall list \<Rightarrow> ChatCompletionStreamResponse" where
  "toolChunk tools =
     \<lparr>Choices = [\<lparr>Delta = \<lparr>deltaContent = [], deltaRole = [], deltaToolCalls = tools\<rparr>\<rparr>]\<rparr>"


definition roleChunk :: "string \<Rightarrow> ChatCompletionStreamResponse" where
  "roleChunk r =
     \<lparr>Choices = [\<lparr>Delta = \<lparr>deltaContent = [], deltaRole = r, deltaToolCalls = []\<rparr>\<rparr>]\<rparr>"

text \<open>Sample collaborators: a key hash and a seed hash that read every tool-call id of the
  request they are given, an empty cache, a stream of two chunks.\<close>

definition idsOf :: "ChatCompletionRequest \<Rightarrow> string" where
  "idsOf request =
     concat (map (\<lambda>m. cmToolCallID m @ concat (map tcID (cmToolCalls m))) (reqMessages request))"

definition sampleEnv :: env where
  "sampleEnv =
     \<lparr>system_InternalSystemPrompt = ''You are task oriented system.'',
      system_IsDefaultPrompt = (\<lambda>content. None),
      hash_ID = (\<lambda>parts. take 12 (concat parts @ ''0123456789ab'')),
      hash_Encode = (\<lambda>base request. base @ idsOf request),
      hash_Seed = (\<lambda>request. int (length (idsOf request))),
      cache_IsNoCache = False,
      cache_Get = (\<lambda>key. Inr None),
      cache_Store = (\<lambda>key buf. None),
      gzip_json_encode = (\<lambda>responses. Inr [of_nat (length responses)]),
      gzip_json_decode = (\<lambda>buf. Inr []),
      CreateChatCompletionStream =
        (\<lambda>request. Inr ([roleChunk ''assistant'', textChunk ''4''], EOF))\<rparr>"

definition sampleClient :: Client where
  "sampleClient = \<lparr>defaultModel = ''gpt-4-turbo-preview'', invalidAuth = False,
     cacheKeyBase = ''base'', setSeed = False, user = []\<rparr>"

definition toolResultMessage :: "string \<Rightarrow> string \<Rightarrow> ChatCompletionMessage" where
  "toolResultMessage callID nestedID =
     \<lparr>cmRole = ''assistant'', cmContent = ''done'', cmMultiContent = [], cmName = ''f'',
      cmToolCalls = [\<lparr>tcIndex = Some 0, tcID = nestedID, tcType = ToolTypeFunction,
                      tcFunction = \<lparr>fcName = ''f'', fcArguments = ''{}''\<rparr>\<rparr>],
      cmToolCallID = callID\<rparr>"

definition wireRequestOf :: "ChatCompletionMessage list \<Rightarrow> ChatCompletionRequest" where
  "wireRequestOf msgs =
     \<lparr>reqModel = ''gpt-4-turbo-preview'', reqMessages = msgs, reqMaxTokens = 0,
      reqTemperature = Some 0, reqUser = [], reqResponseFormat = None, reqTools = [],
      reqSeed = None, reqStream = False\<rparr>"

definition textMessage :: "string \<Rightarrow> string \<Rightarrow> CompletionMessage" where
  "textMessage role text = \<lparr>Role = role, Content = types_Text text, MessageToolCall = None\<rparr>"

definition requestOf :: "bool option \<Rightarrow> CompletionMessage list \<Rightarrow> CompletionRequest" where
  "requestOf internal msgs =
     \<lparr>Model = [], InternalSystemPrompt = internal, Tools = [], Messages = msgs, MaxTokens = 0,
      Temperature = None, JSONResponse = False, Cache = None\<rparr>"

definition scalarMessage :: "string \<Rightarrow> string \<Rightarrow> ChatCompletionMessage" where
  "scalarMessage role text =
     \<lparr>cmRole = role, cmContent = text, cmMultiContent = [], cmName = [], cmToolCalls = [],
      cmToolCallID = []\<rparr>"


text \<open>A request, what it compiles to, and the collaborators of four scenarios: a cache
  that holds the answer, a lookup that fails, a stream that breaks after its first chunk,
  a stream that carries a tool call without an id.\<close>

definition sampleRequest :: CompletionRequest where
  "sampleRequest =
     requestOf None [textMessage ''system'' ''be terse'', textMessage ''user'' ''2+2?'']"

definition sampleCompiled :: "ChatCompletionMessage list" where
  "sampleCompiled =
     [scalarMessage ''system'' (''You are task oriented system.'' @ [CHR 0x0A] @ ''be terse''),
      scalarMessage ''user'' ''2+2?'']"

definition sampleAnswer :: CompletionMessage where
  "sampleAnswer =
     \<lparr>Role = ''assistant'', Content = [\<lparr>Text = ''4'', ToolCall = None\<rparr>], MessageToolCall = None\<rparr>"


definition failingGetEnv :: env where
  "failingGetEnv = sampleEnv\<lparr>cache_Get := (\<lambda>key. Inl (Upstream ''cache read''))\<rparr>"

definition brokenStreamEnv :: env where
  "brokenStreamEnv =
     sampleEnv\<lparr>CreateChatCompletionStream :=
       (\<lambda>request. Inr ([roleChunk ''assistant''], RecvError (Upstream ''connection reset'')))\<rparr>"

definition toolStreamEnv :: env where
  "toolStreamEnv =
     sampleEnv\<lparr>CreateChatCompletionStream :=
       (\<lambda>request. Inr ([toolChunk [toolFragment (Some 0) [] ''f'' ''{}'']], EOF))\<rparr>"

definition toolAnswer :: CompletionMessage where
  "toolAnswer =
     \<lparr>Role = [],
      Content = [\<lparr>Text = [], ToolCall = Some \<lparr>Index = Some 0, ID = ''call_f{}01234'',
                   Function = \<lparr>Name = ''f'', Arguments = ''{}''\<rparr>\<rparr>\<rparr>],
      MessageToolCall = None\<rparr>"

text \<open>A request with two leading system messages, a system message before an assistant
  message and a trailing system message.\<close>

definition coalesceRequest :: CompletionRequest where
  "coalesceRequest =
     requestOf None
       [textMessage ''system'' ''be terse'', textMessage ''system'' ''be kind'',
        textMessage ''user'' ''hi'', textMessage ''system'' ''stay calm'',
        textMessage ''assistant'' ''ok'', textMessage ''system'' ''bye'']"


section \<open>Properties\<close>

subsection \<open>Gap filling\<close>

lemma grow_eq: "grow content idx = content @ map placeholder [length content ..< nat (idx + 1)]"
proof (induction content idx rule: grow.induct)
  case (1 content idx)
  show ?case
  proof (cases "int (length content) - 1 < idx")
    case True
    then have lt: "length content < nat (idx + 1)" by linarith
    have "grow content idx = grow (content @ [placeholder (length content)]) idx"
      using True by (subst grow.simps) simp
    also have "\<dots> = (content @ [placeholder (length content)]) @
        map placeholder [Suc (length content) ..< nat (idx + 1)]"
      using 1 True by simp
    also have "\<dots> = content @ map placeholder [length content ..< nat (idx + 1)]"
      using lt by (simp add: upt_conv_Cons)
    finally show ?thesis .
  next
    case False
    then have "nat (idx + 1) \<le> length content" by linarith
    moreover have "grow content idx = content" using False by (subst grow.simps) simp
    ultimately show ?thesis by simp
  qed
qed

lemma mergeToolCall_placeholder:
  "resolveIndex tool = int n \<Longrightarrow> mergeToolCall (placeholder n) tool =
     \<lparr>Text = [], ToolCall = Some \<lparr>Index = Some (int n), ID = tcID tool,
        Function = \<lparr>Name = fcName (tcFunction tool), Arguments = fcArguments (tcFunction tool)\<rparr>\<rparr>\<rparr>"
  by (auto simp: mergeToolCall_def placeholder_def emptyToolCall_def override_def resolveIndex_def Let_def
      split: option.splits)

text \<open>
  Claim C3. When a tool-call fragment resolves (explicit index if present, else 0) to an
  index that the content-part list does not have yet, the list is grown with empty
  tool-call placeholders, in order, until that index exists, and the new last slot is
  then populated from the fragment. A fragment citing index 3 over a list with indices
  0 and 1 creates slots 2 and 3.
\<close>

theorem gap_filling:
  assumes "int (length content) \<le> resolveIndex tool"
  shows "appendToolCall content tool =
     Inr (content @ map placeholder [length content ..< nat (resolveIndex tool)] @
       [\<lparr>Text = [], ToolCall = Some \<lparr>Index = Some (resolveIndex tool), ID = tcID tool,
          Function = \<lparr>Name = fcName (tcFunction tool),
                      Arguments = fcArguments (tcFunction tool)\<rparr>\<rparr>\<rparr>])"
proof -
  define n where "n = nat (resolveIndex tool)"
  have idx: "resolveIndex tool = int n" and le: "length content \<le> n"
    using assms by (simp_all add: n_def)
  have g: "grow content (int n) = (content @ map placeholder [length content ..< n]) @ [placeholder n]"
    using le by (simp add: grow_eq nat_add_distrib)
  have len: "length (content @ map placeholder [length content ..< n]) = n"
    using le by simp
  show ?thesis
    unfolding appendToolCall_def Let_def idx g
    using mergeToolCall_placeholder[OF idx] len
    by (simp add: nth_append list_update_append n_def[symmetric] del: upt_Suc)
qed


theorem gap_filling_witness:
  "int (length [placeholder 0, placeholder 1]) \<le>
     resolveIndex (toolFragment (Some 3) ''c3'' ''f'' ''{'') \<and>
   appendToolCall [placeholder 0, placeholder 1] (toolFragment (Some 3) ''c3'' ''f'' ''{'') =
     Inr [placeholder 0, placeholder 1, placeholder 2,
          \<lparr>Text = [], ToolCall = Some \<lparr>Index = Some 3, ID = ''c3'',
             Function = \<lparr>Name = ''f'', Arguments = ''{''\<rparr>\<rparr>\<rparr>] \<and>
   appendMessage (emptyMessage\<lparr>Content := [placeholder 0, placeholder 1]\<rparr>)
       (toolChunk [toolFragment (Some 3) ''c3'' ''f'' ''{'']) =
     Inr (emptyMessage\<lparr>Content :=
       [placeholder 0, placeholder 1, placeholder 2,
        \<lparr>Text = [], ToolCall = Some \<lparr>Index = Some 3, ID = ''c3'',
           Function = \<lparr>Name = ''f'', Arguments = ''{''\<rparr>\<rparr>\<rparr>]\<rparr>)"
proof -
  have h: "int (length [placeholder 0, placeholder 1]) \<le>
      resolveIndex (toolFragment (Some 3) ''c3'' ''f'' ''{'')"
    by (simp add: resolveIndex_def toolFragment_def)
  have m: "appendMessage (emptyMessage\<lparr>Content := [placeholder 0, placeholder 1]\<rparr>)
       (toolChunk [toolFragment (Some 3) ''c3'' ''f'' ''{'']) =
     Inr (emptyMessage\<lparr>Content :=
       [placeholder 0, placeholder 1, placeholder 2,
        \<lparr>Text = [], ToolCall = Some \<lparr>Index = Some 3, ID = ''c3'',
           Function = \<lparr>Name = ''f'', Arguments = ''{''\<rparr>\<rparr>\<rparr>]\<rparr>)"
    by code_simp
  show ?thesis
    using h m gap_filling [OF h]
    by (simp add: resolveIndex_def toolFragment_def eval_nat_numeral)
qed

subsection \<open>Exclusivity of content parts\<close>

lemma exclusive_placeholder: "exclusive (placeholder n)"
  by (simp add: exclusive_def placeholder_def)

lemma ToolCall_placeholder: "ToolCall (placeholder n) \<noteq> None"
  by (simp add: placeholder_def)

lemma Text_mergeToolCall: "Text (mergeToolCall tc tool) = Text tc"
  by (simp add: mergeToolCall_def Let_def)

lemma ToolCall_mergeToolCall: "ToolCall (mergeToolCall tc tool) \<noteq> None"
  by (simp add: mergeToolCall_def Let_def)

lemma appendToolCall_exclusive:
  assumes ex: "list_all exclusive content"
    and nohit: "\<not> hitsText content tool"
    and res: "appendToolCall content tool = Inr content'"
  shows "list_all exclusive content' \<and> length content \<le> length content' \<and>
         (\<forall>i<length content. (ToolCall (content' ! i) = None) = (ToolCall (content ! i) = None))"
proof -
  define n where "n = nat (resolveIndex tool)"
  define grown where "grown = grow content (resolveIndex tool)"
  have nonneg: "0 \<le> resolveIndex tool" and c': "content' = grown[n := mergeToolCall (grown ! n) tool]"
    using res by (auto simp: appendToolCall_def Let_def n_def grown_def split: if_splits)
  have grown: "grown = content @ map placeholder [length content ..< n + 1]"
    using nonneg by (simp add: grown_def grow_eq n_def nat_add_distrib)
  have n_lt: "n < length grown" by (simp add: grown)
  have exg: "list_all exclusive grown"
    using ex by (auto simp: grown list_all_iff exclusive_placeholder simp del: upt_Suc)
  have old: "ToolCall (grown ! n) \<noteq> None \<and> Text (grown ! n) = []"
  proof (cases "n < length content")
    case True
    then have "grown ! n = content ! n" by (simp add: grown nth_append)
    moreover have "ToolCall (content ! n) \<noteq> None"
      using nohit True nonneg by (simp add: hitsText_def n_def)
    moreover have "exclusive (content ! n)" using ex True by (simp add: list_all_length)
    ultimately show ?thesis by (auto simp: exclusive_def)
  next
    case False
    then have "grown ! n = placeholder n" 
      by (simp add: grown nth_append del: upt_Suc)
    then show ?thesis by (simp add: placeholder_def)
  qed
  have exm: "exclusive (mergeToolCall (grown ! n) tool)"
    using old by (simp add: exclusive_def Text_mergeToolCall)
  have 1: "list_all exclusive content'"
    using exg exm set_update_subset_insert[of grown n "mergeToolCall (grown ! n) tool"]
    unfolding c' list_all_iff by blast
  have 2: "length content \<le> length content'" by (simp add: c' grown)
  have 3: "(ToolCall (content' ! i) = None) = (ToolCall (content ! i) = None)" if "i < length content" for i
  proof (cases "i = n")
    case True
    then have "content' ! i = mergeToolCall (grown ! n) tool" using n_lt by (simp add: c')
    moreover have "grown ! n = content ! n" using that True by (simp add: grown nth_append)
    ultimately show ?thesis using old True by (simp add: ToolCall_mergeToolCall)
  next
    case False
    then show ?thesis using that by (simp add: c' grown nth_append)
  qed
  from 1 2 3 show ?thesis by blast
qed

lemma appendToolCalls_exclusive:
  "list_all exclusive content \<Longrightarrow> list_all (\<lambda>tool. \<not> hitsText content tool) tools \<Longrightarrow>
   appendToolCalls content tools = Inr content' \<Longrightarrow> list_all exclusive content'"
proof (induction tools arbitrary: content)
  case Nil
  then show ?case by simp
next
  case (Cons tool tools)
  from Cons.prems(3) obtain c1 where c1: "appendToolCall content tool = Inr c1"
    and rest: "appendToolCalls c1 tools = Inr content'"
    by (auto split: sum.splits)
  from Cons.prems(2) have nh: "\<not> hitsText content tool"
    and nhs: "list_all (\<lambda>tool. \<not> hitsText content tool) tools" by simp_all
  note step = appendToolCall_exclusive[OF Cons.prems(1) nh c1]
  have "list_all (\<lambda>tool. \<not> hitsText c1 tool) tools"
    unfolding list_all_iff
  proof
    fix t assume t: "t \<in> set tools"
    then have a: "\<not> hitsText content t" using nhs by (simp add: list_all_iff)
    show "\<not> hitsText c1 t"
    proof
      assume h: "hitsText c1 t"
      define k where "k = nat (resolveIndex t)"
      from h have k: "0 \<le> resolveIndex t" "k < length c1" "ToolCall (c1 ! k) = None"
        by (auto simp: hitsText_def k_def)
      show False
      proof (cases "k < length content")
        case True
        then have "ToolCall (content ! k) = None" using step k by simp
        then show False using a True k(1) by (simp add: hitsText_def k_def)
      next
        case False
        define n where "n = nat (resolveIndex tool)"
        have nonneg: "0 \<le> resolveIndex tool" and c1eq: "c1 = (grow content (resolveIndex tool))[n := mergeToolCall (grow content (resolveIndex tool) ! n) tool]"
          using c1 by (auto simp: appendToolCall_def Let_def n_def split: if_splits)
        have g: "grow content (resolveIndex tool) = content @ map placeholder [length content ..< n + 1]"
          using nonneg by (simp add: grow_eq n_def nat_add_distrib)
        have klen: "k < length (grow content (resolveIndex tool))" using k(2) by (simp add: c1eq)
        have "ToolCall (c1 ! k) \<noteq> None"
        proof (cases "k = n")
          case True
          then show ?thesis using klen by (simp add: c1eq ToolCall_mergeToolCall)
        next
          case False': False
          have "c1 ! k = grow content (resolveIndex tool) ! k" using False' by (simp add: c1eq)
          also have "\<dots> = placeholder k" using False klen unfolding g
            by (simp add: nth_append del: upt_Suc)
          finally show ?thesis by (simp add: ToolCall_placeholder)
        qed
        then show False using k(3) by simp
      qed
    qed
  qed
  from Cons.IH[OF _ this rest] step show ?case by simp
qed

lemma appendText_exclusive:
  "list_all exclusive content \<Longrightarrow> appendText content d = Some content' \<Longrightarrow> list_all exclusive content'"
  by (induction content arbitrary: content') (auto simp: exclusive_def split: if_splits)

lemma appendContent_exclusive:
  "list_all exclusive content \<Longrightarrow> list_all exclusive (appendContent content d)"
  using appendText_exclusive[of content d]
  by (auto simp: appendContent_def split: option.splits) (simp add: exclusive_def)

lemma appendMessage_exclusive:
  assumes "list_all exclusive (Content msg)"
    and "case Choices response of [] \<Rightarrow> True
         | choice # _ \<Rightarrow> list_all (\<lambda>tool. \<not> hitsText (Content msg) tool) (deltaToolCalls (Delta choice))"
    and "appendMessage msg response = Inr msg'"
  shows "list_all exclusive (Content msg')"
  using assms
  by (auto simp: appendMessage_def Let_def split: list.splits sum.splits
      intro!: appendContent_exclusive dest: appendToolCalls_exclusive)

text \<open>
  Claim C2, as amended. Folding a chunk sequence keeps every content part exclusive
  (a text or a tool call, never both) provided no tool-call fragment hits a text part:
  every fragment resolves to an index beyond the parts present or to a tool-call part.
\<close>

theorem fold_exclusive:
  "list_all exclusive (Content msg) \<Longrightarrow> avoidsText msg responses \<Longrightarrow>
   appendMessages msg responses = Inr msg' \<Longrightarrow> list_all exclusive (Content msg')"
proof (induction responses arbitrary: msg)
  case Nil
  then show ?case by simp
next
  case (Cons response responses)
  from Cons.prems(3) obtain m1 where m1: "appendMessage msg response = Inr m1"
    and rest: "appendMessages m1 responses = Inr msg'"
    by (auto split: sum.splits)
  from Cons.prems(2) m1 have a: "avoidsText m1 responses" by simp
  have "list_all exclusive (Content m1)"
    using appendMessage_exclusive[OF Cons.prems(1) _ m1] Cons.prems(2) by simp
  from Cons.IH[OF this a rest] show ?case .
qed

theorem fold_exclusive_witness:
  "list_all exclusive (Content emptyMessage) \<and>
   avoidsText emptyMessage
     [toolChunk [toolFragment (Some 1) ''c1'' ''g'' ''{'', toolFragment None [] ''f'' []], textChunk ''hi'',
      toolChunk [toolFragment (Some 1) [] [] ''}'']] \<and>
   appendMessages emptyMessage
     [toolChunk [toolFragment (Some 1) ''c1'' ''g'' ''{'', toolFragment None [] ''f'' []], textChunk ''hi'',
      toolChunk [toolFragment (Some 1) [] [] ''}'']] =
     Inr \<lparr>Role = [],
          Content = [\<lparr>Text = [], ToolCall = Some \<lparr>Index = Some 0, ID = [],
                       Function = \<lparr>Name = ''f'', Arguments = []\<rparr>\<rparr>\<rparr>,
                     \<lparr>Text = [], ToolCall = Some \<lparr>Index = Some 1, ID = ''c1'',
                       Function = \<lparr>Name = ''g'', Arguments = ''{}''\<rparr>\<rparr>\<rparr>,
                     \<lparr>Text = ''hi'', ToolCall = None\<rparr>],
          MessageToolCall = None\<rparr> \<and>
   list_all exclusive
     [\<lparr>Text = [], ToolCall = Some \<lparr>Index = Some 0, ID = [],
                       Function = \<lparr>Name = ''f'', Arguments = []\<rparr>\<rparr>\<rparr>,
                     \<lparr>Text = [], ToolCall = Some \<lparr>Index = Some 1, ID = ''c1'',
                       Function = \<lparr>Name = ''g'', Arguments = ''{}''\<rparr>\<rparr>\<rparr>,
                     \<lparr>Text = ''hi'', ToolCall = None\<rparr>]"
proof -
  let ?cs = "[toolChunk [toolFragment (Some 1) ''c1'' ''g'' ''{'', toolFragment None [] ''f'' []], textChunk ''hi'',
      toolChunk [toolFragment (Some 1) [] [] ''}'']]"
  have h1: "list_all exclusive (Content emptyMessage)" by code_simp
  have h2: "avoidsText emptyMessage ?cs" by code_simp
  have h3: "appendMessages emptyMessage ?cs = Inr \<lparr>Role = [],
          Content = [\<lparr>Text = [], ToolCall = Some \<lparr>Index = Some 0, ID = [],
                       Function = \<lparr>Name = ''f'', Arguments = []\<rparr>\<rparr>\<rparr>,
                     \<lparr>Text = [], ToolCall = Some \<lparr>Index = Some 1, ID = ''c1'',
                       Function = \<lparr>Name = ''g'', Arguments = ''{}''\<rparr>\<rparr>\<rparr>,
                     \<lparr>Text = ''hi'', ToolCall = None\<rparr>],
          MessageToolCall = None\<rparr>" by code_simp
  show ?thesis using h1 h2 h3 fold_exclusive [OF h1 h2 h3] by simp
qed


text \<open>
  Claim C2 as stated fails: after a text delta, a fragment for index 0 finds the text part
  in slot 0, and \<^verbatim>\<open>appendMessage\<close> attaches the tool call to it and keeps the text.
\<close>

theorem exclusive_counterexample:
  "appendMessages emptyMessage [textChunk ''hi'', toolChunk [toolFragment (Some 0) ''c0'' ''f'' ''{}'']] =
     Inr \<lparr>Role = [],
          Content = [\<lparr>Text = ''hi'', ToolCall = Some \<lparr>Index = Some 0, ID = ''c0'',
                       Function = \<lparr>Name = ''f'', Arguments = ''{}''\<rparr>\<rparr>\<rparr>],
          MessageToolCall = None\<rparr> \<and>
   \<not> exclusive \<lparr>Text = ''hi'', ToolCall = Some \<lparr>Index = Some 0, ID = ''c0'',
                       Function = \<lparr>Name = ''f'', Arguments = ''{}''\<rparr>\<rparr>\<rparr>"
  by code_simp


subsection \<open>Compilation of one message\<close>

lemma addContent_eq:
  "addContent m parts =
     m\<lparr>cmToolCalls := cmToolCalls m @ map toToolCall (List.map_filter ToolCall parts),
       cmMultiContent := cmMultiContent m @
         map (\<lambda>t. \<lparr>partType = ChatMessagePartTypeText, partText = t\<rparr>)
           (filter (\<lambda>t. t \<noteq> []) (map Text parts))\<rparr>"
  by (induction parts arbitrary: m) (auto simp: Let_def List.map_filter_simps split: option.splits)

lemma toChatMessage_role:
  "toChatMessage env message = Some cm \<Longrightarrow> cmRole cm = Role message"
  by (auto simp: toChatMessage_def Let_def addContent_eq split: list.splits if_splits option.splits)

lemma map_filter_roles:
  "map cmRole (List.map_filter (toChatMessage env) msgs) =
   map Role (filter (\<lambda>m. toChatMessage env m \<noteq> None) msgs)"
  by (induction msgs) (auto simp: List.map_filter_simps toChatMessage_role split: option.splits)


subsection \<open>Seed and cache key\<close>

lemma stripToolCallIDs_cong:
  "sameMessageUpToIDs a b \<Longrightarrow> stripToolCallIDs a = stripToolCallIDs b"
proof -
  assume s: "sameMessageUpToIDs a b"
  then have "list_all2 sameToolCallUpToID (cmToolCalls a) (cmToolCalls b)"
    by (simp add: sameMessageUpToIDs_def)
  then have "map (\<lambda>tool. tool\<lparr>tcID := []\<rparr>) (cmToolCalls a) = map (\<lambda>tool. tool\<lparr>tcID := []\<rparr>) (cmToolCalls b)"
    by (induction rule: list_all2_induct) (auto simp: sameToolCallUpToID_def)
  with s show ?thesis
    by (simp add: stripToolCallIDs_def sameMessageUpToIDs_def)
qed

lemma map_stripToolCallIDs_cong:
  "list_all2 sameMessageUpToIDs xs ys \<Longrightarrow> map stripToolCallIDs xs = map stripToolCallIDs ys"
  by (induction rule: list_all2_induct) (auto dest: stripToolCallIDs_cong)

text \<open>
  Claim C7. Two wire requests that are the same up to their tool-call ids (the
  \<^verbatim>\<open>ToolCallID\<close> of a message and the ids nested in its tool calls) have the same
  seed. The cache key hashes the request as it is: two such requests, under a key hash
  that reads the ids, have different keys.
\<close>

theorem seed_ignores_tool_call_ids:
  "(sameRequestUpToIDs r1 r2 \<longrightarrow> seed env r1 = seed env r2) \<and>
   sameRequestUpToIDs (wireRequestOf [toolResultMessage ''call_1'' ''call_2''])
                      (wireRequestOf [toolResultMessage ''call_3'' ''call_4'']) \<and>
   cacheKey sampleEnv sampleClient (wireRequestOf [toolResultMessage ''call_1'' ''call_2'']) \<noteq>
   cacheKey sampleEnv sampleClient (wireRequestOf [toolResultMessage ''call_3'' ''call_4''])"
proof (intro conjI impI)
  assume s: "sameRequestUpToIDs r1 r2"
  then have "map stripToolCallIDs (reqMessages r1) = map stripToolCallIDs (reqMessages r2)"
    by (simp add: sameRequestUpToIDs_def map_stripToolCallIDs_cong)
  with s have "r1\<lparr>reqMessages := map stripToolCallIDs (reqMessages r1)\<rparr> =
               r2\<lparr>reqMessages := map stripToolCallIDs (reqMessages r2)\<rparr>"
    by (simp add: sameRequestUpToIDs_def)
  then show "seed env r1 = seed env r2" by (simp add: seed_def)
next
  show "sameRequestUpToIDs (wireRequestOf [toolResultMessage ''call_1'' ''call_2''])
                      (wireRequestOf [toolResultMessage ''call_3'' ''call_4''])"
    by (simp add: sameRequestUpToIDs_def wireRequestOf_def sameMessageUpToIDs_def toolResultMessage_def sameToolCallUpToID_def)
next
  show "cacheKey sampleEnv sampleClient (wireRequestOf [toolResultMessage ''call_1'' ''call_2'']) \<noteq>
   cacheKey sampleEnv sampleClient (wireRequestOf [toolResultMessage ''call_3'' ''call_4''])"
    by (simp add: cacheKey_def sampleEnv_def sampleClient_def wireRequestOf_def toolResultMessage_def idsOf_def)
qed

theorem seed_ignores_tool_call_ids_witness:
  "sameRequestUpToIDs (wireRequestOf [toolResultMessage ''call_1'' ''call_2''])
                      (wireRequestOf [toolResultMessage ''id_3'' []]) \<and>
   seed sampleEnv (wireRequestOf [toolResultMessage ''call_1'' ''call_2'']) =
   seed sampleEnv (wireRequestOf [toolResultMessage ''id_3'' []]) \<and>
   hash_Seed sampleEnv (wireRequestOf [toolResultMessage ''call_1'' ''call_2'']) \<noteq>
   hash_Seed sampleEnv (wireRequestOf [toolResultMessage ''id_3'' []])"
proof -
  have h: "sameRequestUpToIDs (wireRequestOf [toolResultMessage ''call_1'' ''call_2''])
                      (wireRequestOf [toolResultMessage ''id_3'' []])"
    by (simp add: sameRequestUpToIDs_def wireRequestOf_def sameMessageUpToIDs_def toolResultMessage_def sameToolCallUpToID_def)
  have g: "hash_Seed sampleEnv (wireRequestOf [toolResultMessage ''call_1'' ''call_2'']) \<noteq>
   hash_Seed sampleEnv (wireRequestOf [toolResultMessage ''id_3'' []])"
    by (simp add: sampleEnv_def wireRequestOf_def toolResultMessage_def idsOf_def)
  from seed_ignores_tool_call_ids [of "wireRequestOf [toolResultMessage ''call_1'' ''call_2'']"
      "wireRequestOf [toolResultMessage ''id_3'' []]" sampleEnv] h g
  show ?thesis by blast
qed


subsection \<open>Coalescing of system messages\<close>

lemma coalesce_eq:
  "mergedHaveContent messages \<Longrightarrow>
   coalesce messages systemPrompts msgs =
     Inr (systemPrompts @ map (\<lambda>ms. firstText (fst ms)) (filter merged (withSuccessor messages)),
          msgs @ map (\<lambda>ms. demote (fst ms)) (filter (\<lambda>ms. \<not> merged ms) (withSuccessor messages)))"
proof (induction messages arbitrary: systemPrompts msgs rule: withSuccessor.induct)
  case 1
  then show ?case by simp
next
  case (2 m)
  then show ?case by (simp add: merged_def demote_def)
next
  case (3 m s rest)
  from "3.prems" have tl: "mergedHaveContent (s # rest)"
    and hd: "merged (m, Some s) \<longrightarrow> Content m \<noteq> []"
    by (simp_all add: mergedHaveContent_def)
  note IH = "3.IH"[OF tl]
  have step: "coalesce (m # s # rest) systemPrompts msgs =
     (if merged (m, Some s) then
        (case Content m of
           [] \<Rightarrow> Inl IndexPanic
         | part # _ \<Rightarrow> coalesce (s # rest) (systemPrompts @ [Text part]) msgs)
      else coalesce (s # rest) systemPrompts (msgs @ [demote m]))"
    by (subst coalesce.simps) (simp add: merged_def demote_def del: coalesce.simps)
  show ?case
  proof (cases "merged (m, Some s)")
    case True
    with hd obtain part parts where c: "Content m = part # parts" by (cases "Content m") auto
    from True c show ?thesis
      by (simp add: step IH firstText_def del: coalesce.simps)
  next
    case False
    then show ?thesis
      by (simp add: step IH del: coalesce.simps)
  qed
qed

lemma map_filter_app:
  "List.map_filter f (xs @ ys) = List.map_filter f xs @ List.map_filter f ys"
  by (simp add: List.map_filter_def)

lemma toChatMessage_system_text:
  "toChatMessage env
     \<lparr>Role = CompletionMessageRoleTypeSystem, Content = types_Text t, MessageToolCall = None\<rparr> =
     (if t = ''.'' \<or> t = ''{}'' then None
      else Some \<lparr>cmRole = CompletionMessageRoleTypeSystem,
                 cmContent = (if t = [] then []
                              else (case system_IsDefaultPrompt env t of
                                      Some prompt \<Rightarrow> prompt
                                    | None \<Rightarrow> t)),
                 cmMultiContent = [], cmName = [], cmToolCalls = [], cmToolCallID = []\<rparr>)"
  by (auto simp: toChatMessage_def types_Text_def Let_def ChatMessagePartTypeText_def
      split: option.splits)

lemma map_filter_systemLeader:
  "List.map_filter (toChatMessage env) (systemLeader prompts) = compiledLeader env prompts"
  by (simp add: systemLeader_def compiledLeader_def Let_def List.map_filter_simps
      toChatMessage_system_text)

lemma keptMessages_roles:
  "m \<in> set (keptMessages request) \<Longrightarrow> Role m \<noteq> CompletionMessageRoleTypeSystem"
  by (auto simp: keptMessages_def demote_def CompletionMessageRoleTypeSystem_def
      CompletionMessageRoleTypeUser_def)

text \<open>
  Claim C1, as amended. For a request in which every system message whose successor is a
  system or a user message has a content part: each such message, leading or not, is
  taken out of its place, and the texts of their first content parts are joined by
  newlines, in request order and after the default internal prompt (unless the request
  disables it), into the text of one system message that is compiled first. That message
  is not sent when there is nothing to join or when the joined text is "." or "{}";
  otherwise it is sent with the joined text as its scalar content or, when that text is
  not empty and \<^verbatim>\<open>system.IsDefaultPrompt\<close> finds a prompt in it, with that prompt. Every
  other message is compiled in its place by the rules for one message, which drop a
  message whose single text is "." or "{}"; a system message among them, that is one
  that is last or whose successor is neither a system nor a user message, is compiled,
  when it is not dropped, with role user. So the compiled messages after the merged one
  carry the roles of the messages kept, and none of them is a system message.
\<close>

theorem toMessages_coalesces:
  assumes "mergedHaveContent (Messages request)"
  shows "toMessages env request =
           Inr (compiledLeader env (hoistedPrompts env request) @
                List.map_filter (toChatMessage env) (keptMessages request)) \<and>
         map cmRole (List.map_filter (toChatMessage env) (keptMessages request)) =
           map Role (filter (\<lambda>m. toChatMessage env m \<noteq> None) (keptMessages request)) \<and>
         list_all (\<lambda>cm. cmRole cm \<noteq> CompletionMessageRoleTypeSystem)
           (List.map_filter (toChatMessage env) (keptMessages request))"
proof (intro conjI)
  have d: "(if InternalSystemPrompt request = None \<or> InternalSystemPrompt request = Some True
             then [system_InternalSystemPrompt env] else []) = defaultPrompts env request"
    by (cases "InternalSystemPrompt request") (auto simp: defaultPrompts_def)
  have "toMessages env request =
     Inr (List.map_filter (toChatMessage env)
            (systemLeader (hoistedPrompts env request) @ keptMessages request))"
    unfolding toMessages_def d Let_def coalesce_eq[OF assms]
    by (simp add: systemLeader_def hoistedPrompts_def keptMessages_def)
  then show "toMessages env request =
           Inr (compiledLeader env (hoistedPrompts env request) @
                List.map_filter (toChatMessage env) (keptMessages request))"
    by (simp add: map_filter_app map_filter_systemLeader)
next
  show "map cmRole (List.map_filter (toChatMessage env) (keptMessages request)) =
           map Role (filter (\<lambda>m. toChatMessage env m \<noteq> None) (keptMessages request))"
    by (rule map_filter_roles)
next
  have "\<forall>r \<in> set (map Role (filter (\<lambda>m. toChatMessage env m \<noteq> None) (keptMessages request))).
          r \<noteq> CompletionMessageRoleTypeSystem"
    using keptMessages_roles[of _ request] by auto
  then have "\<forall>r \<in> set (map cmRole (List.map_filter (toChatMessage env) (keptMessages request))).
          r \<noteq> CompletionMessageRoleTypeSystem"
    by (simp only: map_filter_roles)
  then show "list_all (\<lambda>cm. cmRole cm \<noteq> CompletionMessageRoleTypeSystem)
           (List.map_filter (toChatMessage env) (keptMessages request))"
    by (simp add: list_all_iff)
qed

theorem toMessages_coalesces_witness:
  "mergedHaveContent (Messages coalesceRequest) \<and>
   filter merged (withSuccessor (Messages coalesceRequest)) =
     [(textMessage ''system'' ''be terse'', Some (textMessage ''system'' ''be kind'')),
      (textMessage ''system'' ''be kind'', Some (textMessage ''user'' ''hi''))] \<and>
   toMessages sampleEnv coalesceRequest =
     Inr [scalarMessage ''system''
            (''You are task oriented system.'' @ [CHR 0x0A] @ ''be terse'' @ [CHR 0x0A] @ ''be kind''),
          scalarMessage ''user'' ''hi'', scalarMessage ''user'' ''stay calm'',
          scalarMessage ''assistant'' ''ok'', scalarMessage ''user'' ''bye''] \<and>
   mergedHaveContent
     (Messages (requestOf None [textMessage ''user'' ''hi'', textMessage ''system'' ''be terse''])) \<and>
   toMessages sampleEnv
     (requestOf None [textMessage ''user'' ''hi'', textMessage ''system'' ''be terse'']) =
     Inr [scalarMessage ''system'' ''You are task oriented system.'',
          scalarMessage ''user'' ''hi'', scalarMessage ''user'' ''be terse'']"
proof -
  let ?r = "requestOf None [textMessage ''user'' ''hi'', textMessage ''system'' ''be terse'']"
  have h: "mergedHaveContent (Messages coalesceRequest)" by code_simp
  have m: "filter merged (withSuccessor (Messages coalesceRequest)) =
     [(textMessage ''system'' ''be terse'', Some (textMessage ''system'' ''be kind'')),
      (textMessage ''system'' ''be kind'', Some (textMessage ''user'' ''hi''))]" by code_simp
  have e: "compiledLeader sampleEnv (hoistedPrompts sampleEnv coalesceRequest) @
           List.map_filter (toChatMessage sampleEnv) (keptMessages coalesceRequest) =
     [scalarMessage ''system''
            (''You are task oriented system.'' @ [CHR 0x0A] @ ''be terse'' @ [CHR 0x0A] @ ''be kind''),
          scalarMessage ''user'' ''hi'', scalarMessage ''user'' ''stay calm'',
          scalarMessage ''assistant'' ''ok'', scalarMessage ''user'' ''bye'']" by code_simp
  have h': "mergedHaveContent (Messages ?r)" by code_simp
  have e': "compiledLeader sampleEnv (hoistedPrompts sampleEnv ?r) @
           List.map_filter (toChatMessage sampleEnv) (keptMessages ?r) =
     [scalarMessage ''system'' ''You are task oriented system.'',
          scalarMessage ''user'' ''hi'', scalarMessage ''user'' ''be terse'']" by code_simp
  from toMessages_coalesces [OF h, of sampleEnv] e
  have a: "toMessages sampleEnv coalesceRequest =
     Inr [scalarMessage ''system''
            (''You are task oriented system.'' @ [CHR 0x0A] @ ''be terse'' @ [CHR 0x0A] @ ''be kind''),
          scalarMessage ''user'' ''hi'', scalarMessage ''user'' ''stay calm'',
          scalarMessage ''assistant'' ''ok'', scalarMessage ''user'' ''bye'']"
    by simp
  from toMessages_coalesces [OF h', of sampleEnv] e'
  have b: "toMessages sampleEnv ?r =
     Inr [scalarMessage ''system'' ''You are task oriented system.'',
          scalarMessage ''user'' ''hi'', scalarMessage ''user'' ''be terse'']"
    by simp
  from h m a h' b show ?thesis by blast
qed


text \<open>
  Claim C1 as stated fails: a system message that follows a user message and precedes
  another is not among the leading system messages, and its text is merged into the
  leading system message all the same.
\<close>

theorem leading_merge_counterexample:
  "toMessages sampleEnv
     (requestOf (Some False)
        [textMessage ''system'' ''a'', textMessage ''user'' ''b'',
         textMessage ''system'' ''c'', textMessage ''user'' ''d'']) =
     Inr [scalarMessage ''system'' (''a'' @ [CHR 0x0A] @ ''c''),
          scalarMessage ''user'' ''b'', scalarMessage ''user'' ''d''] \<and>
   strings_Join
     (leadingPrompts sampleEnv
        (requestOf (Some False)
           [textMessage ''system'' ''a'', textMessage ''user'' ''b'',
            textMessage ''system'' ''c'', textMessage ''user'' ''d''])) [CHR 0x0A] = ''a''"
  by code_simp


subsection \<open>Scalar content and the sentinel texts\<close>

text \<open>
  Claim C9. A message whose content collapses to a single text part is left out of the
  compiled list when that text is "." or "{}"; with any other text it is compiled with
  the multi-part array empty and the scalar content field set, to that text or to the
  prompt that \<^verbatim>\<open>system.IsDefaultPrompt\<close> finds in it.
\<close>

theorem sentinel_collapse:
  assumes "textsOf message = [t]"
  shows "toChatMessage env message =
     (if t = ''.'' \<or> t = ''{}'' then None
      else Some \<lparr>cmRole = Role message,
                 cmContent = (case system_IsDefaultPrompt env t of Some prompt \<Rightarrow> prompt | None \<Rightarrow> t),
                 cmMultiContent = [],
                 cmName = (case MessageToolCall message of None \<Rightarrow> [] | Some tc \<Rightarrow> Name (Function tc)),
                 cmToolCalls = map toToolCall (List.map_filter ToolCall (Content message)),
                 cmToolCallID = (case MessageToolCall message of None \<Rightarrow> [] | Some tc \<Rightarrow> ID tc)\<rparr>)"
  using assms
  by (auto simp: toChatMessage_def Let_def addContent_eq textsOf_def split: option.splits)

theorem sentinel_collapse_witness:
  "textsOf (textMessage ''tool'' ''{}'') = [''{}''] \<and>
   toChatMessage sampleEnv (textMessage ''tool'' ''{}'') = None \<and>
   toMessages sampleEnv
     (requestOf (Some False) [textMessage ''user'' ''hi'', textMessage ''tool'' ''{}'']) =
     Inr [scalarMessage ''user'' ''hi'']"
proof -
  have h: "textsOf (textMessage ''tool'' ''{}'') = [''{}'']" by code_simp
  have e: "toMessages sampleEnv
     (requestOf (Some False) [textMessage ''user'' ''hi'', textMessage ''tool'' ''{}'']) =
     Inr [scalarMessage ''user'' ''hi'']" by code_simp
  show ?thesis using h sentinel_collapse [OF h, of sampleEnv] e by simp
qed


subsection \<open>The orchestration, step by step\<close>

lemma appendMessages_append:
  "appendMessages msg (xs @ ys) =
     (case appendMessages msg xs of Inl e \<Rightarrow> Inl e | Inr msg' \<Rightarrow> appendMessages msg' ys)"
  by (induction xs arbitrary: msg) (auto split: sum.splits)

text \<open>When a chunk sequence folds without a panic, so does each of its prefixes: the
  messages of \<open>partialsFrom\<close> are the folds of the prefixes.\<close>

lemma appendMessages_take:
  assumes "appendMessages msg chunks = Inr m"
  shows "\<exists>m'. appendMessages msg (take k chunks) = Inr m'"
proof -
  have "appendMessages msg (take k chunks @ drop k chunks) = Inr m"
    using assms by simp
  then show ?thesis
    unfolding appendMessages_append by (auto split: sum.splits)
qed

lemma partialsFrom_Nil: "partialsFrom msg [] = []"
  by (simp add: partialsFrom_def)

lemma partialsFrom_Cons:
  "appendMessage msg chunk = Inr msg' \<Longrightarrow>
   partialsFrom msg (chunk # chunks) = msg' # partialsFrom msg' chunks"
proof -
  assume a: "appendMessage msg chunk = Inr msg'"
  have "[1 ..< Suc (Suc (length chunks))] = 1 # map Suc [1 ..< Suc (length chunks)]"
    by (simp add: map_Suc_upt upt_conv_Cons del: upt_Suc)
  then show ?thesis
    using a by (simp add: partialsFrom_def comp_def del: upt_Suc)
qed

lemma recvLoop_eq:
  "appendMessages partialMessage chunks = Inr m \<Longrightarrow>
   recvLoop transactionID partialMessage responses chunks =
     (map (\<lambda>m. Status (partialStatus transactionID m)) (partialsFrom partialMessage chunks),
      Inr (responses @ chunks))"
proof (induction chunks arbitrary: partialMessage responses)
  case Nil
  then show ?case by (simp add: partialsFrom_Nil)
next
  case (Cons chunk chunks)
  from Cons.prems obtain pm' where s: "appendMessage partialMessage chunk = Inr pm'"
    and r: "appendMessages pm' chunks = Inr m"
    by (auto split: sum.splits)
  show ?case
    by (simp add: s Cons.IH[OF r] partialsFrom_Cons[OF s])
qed


lemma call_eq:
  assumes "CreateChatCompletionStream env (request\<lparr>reqStream := True\<rparr>) = Inr (chunks, fin)"
    and "appendMessages emptyMessage chunks = Inr m"
  shows "call env c request transactionID =
     (case fin of
        RecvError e \<Rightarrow> (liveOpening transactionID request chunks @ [StreamClose], Inl e)
      | EOF \<Rightarrow>
          (liveOpening transactionID request chunks @
             fst (store env (cacheKey env c request) chunks) @ [StreamClose],
           case snd (store env (cacheKey env c request) chunks) of
             Some e \<Rightarrow> Inl e
           | None \<Rightarrow> Inr chunks))"
  using assms(1) recvLoop_eq[OF assms(2), of transactionID "[]"]
  by (simp add: call_def Let_def liveOpening_def split: recv_end.splits prod.splits option.splits)



lemma fromCache_None:
  assumes "fromCache env c messageRequest request = (gevs, Inr None)"
  shows "(if cache_IsNoCache env \<or> Cache messageRequest = Some False then gevs = []
          else gevs = [CacheGet (cacheKey env c request)] \<and>
               cache_Get env (cacheKey env c request) = Inr None)"
  using assms
  by (auto simp: fromCache_def Let_def split: if_splits sum.splits option.splits)

lemma finish_Inr:
  assumes "returned (finish env transactionID n evs response cached) = Inr result"
  shows "\<exists>folded content. appendMessages emptyMessage response = Inr folded \<and>
           backfill env (Content folded) = Inr content \<and>
           result = folded\<lparr>Content := content\<rparr> \<and>
           finish env transactionID n evs response cached =
             \<lparr>events = evs @ [Status (finalStatus transactionID response result cached)],
              counter = n, returned = Inr result\<rparr>"
  using assms
  by (auto simp: finish_def Let_def split: sum.splits)

lemma Call_Inr:
  assumes "returned (Call env c n messageRequest) = Inr result"
  shows "\<exists>msgs gevs. ValidAuth c = None \<and>
           toMessages env (withDefaultModel c messageRequest) = Inr msgs \<and> msgs \<noteq> [] \<and>
           ((\<exists>response.
               fromCache env c (withDefaultModel c messageRequest)
                 (withSeed env c (buildRequest c (withDefaultModel c messageRequest) msgs)) =
                 (gevs, Inr (Some response)) \<and>
               Call env c n messageRequest =
                 finish env (mintID n) (n + 1)
                   (Status (submittedStatus (mintID n)
                      (buildRequest c (withDefaultModel c messageRequest) msgs)) # gevs)
                   response True) \<or>
            (\<exists>cevs response.
               fromCache env c (withDefaultModel c messageRequest)
                 (withSeed env c (buildRequest c (withDefaultModel c messageRequest) msgs)) =
                 (gevs, Inr None) \<and>
               call env c (withSeed env c (buildRequest c (withDefaultModel c messageRequest) msgs))
                 (mintID n) = (cevs, Inr response) \<and>
               Call env c n messageRequest =
                 finish env (mintID n) (n + 1)
                   (Status (submittedStatus (mintID n)
                      (buildRequest c (withDefaultModel c messageRequest) msgs)) # gevs @ cevs)
                   response False))"
proof (cases "ValidAuth c")
  case (Some e)
  with assms show ?thesis by (simp add: Call_def)
next
  case None
  show ?thesis
  proof (cases "toMessages env (withDefaultModel c messageRequest)")
    case (Inl e)
    with assms None show ?thesis by (simp add: Call_def Let_def)
  next
    case (Inr msgs)
    show ?thesis
    proof (cases "msgs = []")
      case True
      with assms None Inr show ?thesis by (simp add: Call_def Let_def)
    next
      case False
      let ?req = "withSeed env c (buildRequest c (withDefaultModel c messageRequest) msgs)"
      obtain gevs looked where fc:
        "fromCache env c (withDefaultModel c messageRequest) ?req = (gevs, looked)"
        by fastforce
      obtain cevs got where cl: "call env c ?req (mintID n) = (cevs, got)"
        by fastforce
      from assms None Inr False fc cl show ?thesis
        by (auto simp: Call_def Let_def split: sum.splits option.splits)
    qed
  qed
qed

lemma Cache_withDefaultModel: "Cache (withDefaultModel c messageRequest) = Cache messageRequest"
  by (simp add: withDefaultModel_def)

lemma backfill_map:
  "backfill env content = Inr content' \<Longrightarrow> content' = map (assignID env) content"
proof (induction content arbitrary: content')
  case Nil
  then show ?case by simp
next
  case (Cons part content)
  from Cons.prems obtain p' rest' where p: "backfillPart env part = Inr p'"
    and r: "backfill env content = Inr rest'" and c: "content' = p' # rest'"
    by (auto split: sum.splits)
  from p have "p' = assignID env part"
    by (auto simp: backfillPart_def assignID_def Let_def split: option.splits if_splits)
  with Cons.IH[OF r] c show ?case by simp
qed

lemma Call_live:
  assumes "ValidAuth c = None"
    and "toMessages env (withDefaultModel c messageRequest) = Inr msgs"
    and "msgs \<noteq> []"
    and "fromCache env c (withDefaultModel c messageRequest)
           (withSeed env c (buildRequest c (withDefaultModel c messageRequest) msgs)) =
           (gevs, Inr None)"
    and "CreateChatCompletionStream env
           ((withSeed env c (buildRequest c (withDefaultModel c messageRequest) msgs))
              \<lparr>reqStream := True\<rparr>) = Inr (chunks, fin)"
    and "appendMessages emptyMessage chunks = Inr m"
  shows "Call env c n messageRequest =
     (let request = buildRequest c (withDefaultModel c messageRequest) msgs;
          request' = withSeed env c request;
          key = cacheKey env c request';
          pre = Status (submittedStatus (mintID n) request) # gevs @
                liveOpening (mintID n) request' chunks
      in case fin of
           RecvError e \<Rightarrow>
             \<lparr>events = pre @ [StreamClose], counter = n + 1, returned = Inl e\<rparr>
         | EOF \<Rightarrow>
             (case snd (store env key chunks) of
                Some e \<Rightarrow>
                  \<lparr>events = pre @ fst (store env key chunks) @ [StreamClose],
                   counter = n + 1, returned = Inl e\<rparr>
              | None \<Rightarrow>
                  finish env (mintID n) (n + 1)
                    (pre @ fst (store env key chunks) @ [StreamClose]) chunks False))"
  using assms(1-4) call_eq[OF assms(5,6), of c "mintID n"]
  by (simp add: Call_def Let_def split: recv_end.splits option.splits)

lemma finish_events:
  "events (finish env transactionID n evs response cached) = evs \<or>
   (\<exists>result. events (finish env transactionID n evs response cached) =
      evs @ [Status (finalStatus transactionID response result cached)])"
  by (auto simp: finish_def Let_def split: sum.splits)

lemma filter_liveOpening:
  "filter isCacheStore (liveOpening transactionID request chunks) = []"
  "filter isCacheGet (liveOpening transactionID request chunks) = []"
  "filter isCreateStream (liveOpening transactionID request chunks) =
     [CreateStream (request\<lparr>reqStream := True\<rparr>)]"
  by (simp_all add: liveOpening_def filter_map comp_def)

lemma fromCache_None_filters:
  assumes "fromCache env c messageRequest request = (gevs, Inr None)"
  shows "filter isCacheStore gevs = []" "filter isCreateStream gevs = []"
    "gevs = lookupEvents env messageRequest (cacheKey env c request)"
  using fromCache_None[OF assms] by (auto simp: lookupEvents_def split: if_splits)

lemma store_filters:
  "filter isCreateStream (fst (store env key chunks)) = []"
  by (auto simp: store_def split: sum.splits)


lemma lookupEvents_withDefaultModel:
  "lookupEvents env (withDefaultModel c messageRequest) key = lookupEvents env messageRequest key"
  by (simp add: lookupEvents_def Cache_withDefaultModel)




subsection \<open>The status protocol\<close>




subsection \<open>A failing lookup\<close>

text \<open>
  Claim C6. When the lookup is made (caching is disabled neither on the context nor on
  the request) and the \<^verbatim>\<open>Get\<close> of the cache store returns an error, \<^verbatim>\<open>Call\<close>
  returns that error: after the Submitted status and the lookup nothing else happens, no
  live call is made.
\<close>

theorem cache_read_error_surfaces:
  assumes "ValidAuth c = None"
    and "toMessages env (withDefaultModel c messageRequest) = Inr msgs"
    and "msgs \<noteq> []"
    and "\<not> cache_IsNoCache env"
    and "Cache messageRequest \<noteq> Some False"
    and "cache_Get env
           (cacheKey env c
              (withSeed env c (buildRequest c (withDefaultModel c messageRequest) msgs))) = Inl e"
  shows "Call env c n messageRequest =
     \<lparr>events =
        [Status (submittedStatus (mintID n)
           (buildRequest c (withDefaultModel c messageRequest) msgs)),
         CacheGet (cacheKey env c
           (withSeed env c (buildRequest c (withDefaultModel c messageRequest) msgs)))],
      counter = n + 1, returned = Inl e\<rparr>"
  using assms
  by (simp add: Call_def Let_def fromCache_def Cache_withDefaultModel)

theorem cache_read_error_surfaces_witness:
  "ValidAuth sampleClient = None \<and>
   toMessages failingGetEnv (withDefaultModel sampleClient sampleRequest) = Inr sampleCompiled \<and>
   sampleCompiled \<noteq> [] \<and>
   \<not> cache_IsNoCache failingGetEnv \<and>
   Cache sampleRequest \<noteq> Some False \<and>
   cache_Get failingGetEnv
     (cacheKey failingGetEnv sampleClient
        (withSeed failingGetEnv sampleClient
           (buildRequest sampleClient (withDefaultModel sampleClient sampleRequest) sampleCompiled))) =
     Inl (Upstream ''cache read'') \<and>
   Call failingGetEnv sampleClient 0 sampleRequest =
     \<lparr>events = [Status (submittedStatus ''1'' (wireRequestOf sampleCompiled)), CacheGet ''base''],
      counter = 1, returned = Inl (Upstream ''cache read'')\<rparr>"
proof -
  have h1: "ValidAuth sampleClient = None" by code_simp
  have h2: "toMessages failingGetEnv (withDefaultModel sampleClient sampleRequest) =
      Inr sampleCompiled" by code_simp
  have h3: "sampleCompiled \<noteq> []" by code_simp
  have h4: "\<not> cache_IsNoCache failingGetEnv" by code_simp
  have h5: "Cache sampleRequest \<noteq> Some False" by code_simp
  have h6: "cache_Get failingGetEnv
     (cacheKey failingGetEnv sampleClient
        (withSeed failingGetEnv sampleClient
           (buildRequest sampleClient (withDefaultModel sampleClient sampleRequest) sampleCompiled))) =
     Inl (Upstream ''cache read'')" by code_simp
  have e1: "mintID 0 = ''1''" by code_simp
  have e2: "buildRequest sampleClient (withDefaultModel sampleClient sampleRequest) sampleCompiled =
      wireRequestOf sampleCompiled" by code_simp
  have e3: "cacheKey failingGetEnv sampleClient
      (withSeed failingGetEnv sampleClient (wireRequestOf sampleCompiled)) = ''base''" by code_simp
  show ?thesis
    using h1 h2 h3 h4 h5 h6 cache_read_error_surfaces [OF h1 h2 h3 h4 h5 h6, of 0]
    by (simp add: e1 e2 e3)
qed


subsection \<open>Backfill of the tool-call ids\<close>

text \<open>
  Claim C8. The message a successful \<^verbatim>\<open>Call\<close> returns, on the replay path and on the
  live path alike, is the fold of the chunk sequence in which every tool call with an
  empty id has been given the id "call_" followed by the first 8 characters of the hash
  of its function name and arguments; the Final status, the last event, carries that
  message.
\<close>

theorem backfill_ids:
  assumes "returned (Call env c n messageRequest) = Inr result"
  shows "\<exists>chunks folded cached.
           appendMessages emptyMessage chunks = Inr folded \<and>
           result = folded\<lparr>Content := map (assignID env) (Content folded)\<rparr> \<and>
           events (Call env c n messageRequest) \<noteq> [] \<and>
           last (events (Call env c n messageRequest)) =
             Status (finalStatus (mintID n) chunks result cached)"
proof -
  from Call_Inr[OF assms] obtain evs chunks cached where
    f: "Call env c n messageRequest = finish env (mintID n) (n + 1) evs chunks cached"
    by blast
  with assms have "returned (finish env (mintID n) (n + 1) evs chunks cached) = Inr result"
    by simp
  from finish_Inr[OF this] obtain folded content where
    a: "appendMessages emptyMessage chunks = Inr folded"
    and b: "backfill env (Content folded) = Inr content"
    and r: "result = folded\<lparr>Content := content\<rparr>"
    and e: "finish env (mintID n) (n + 1) evs chunks cached =
             \<lparr>events = evs @ [Status (finalStatus (mintID n) chunks result cached)],
              counter = n + 1, returned = Inr result\<rparr>"
    by blast
  from backfill_map[OF b] r have "result = folded\<lparr>Content := map (assignID env) (Content folded)\<rparr>"
    by simp
  with a f e show ?thesis by auto
qed

theorem backfill_ids_witness:
  "returned (Call toolStreamEnv sampleClient 0 sampleRequest) = Inr toolAnswer \<and>
   (\<exists>chunks folded cached.
      appendMessages emptyMessage chunks = Inr folded \<and>
      toolAnswer = folded\<lparr>Content := map (assignID toolStreamEnv) (Content folded)\<rparr> \<and>
      events (Call toolStreamEnv sampleClient 0 sampleRequest) \<noteq> [] \<and>
      last (events (Call toolStreamEnv sampleClient 0 sampleRequest)) =
        Status (finalStatus (mintID 0) chunks toolAnswer cached))"
proof -
  have h: "returned (Call toolStreamEnv sampleClient 0 sampleRequest) = Inr toolAnswer"
    by code_simp
  show ?thesis using h backfill_ids [OF h] by simp
qed


subsection \<open>Caching disabled on the request\<close>

text \<open>
  Claim C10. When the request sets its cache flag to false and the context does not
  disable caching, no lookup is made, and the chunk sequence received from the live call
  is still written to the cache store: \<^verbatim>\<open>store\<close> asks the context only.
\<close>

theorem request_cache_flag_skips_lookup_only:
  assumes "ValidAuth c = None"
    and "toMessages env (withDefaultModel c messageRequest) = Inr msgs"
    and "msgs \<noteq> []"
    and "Cache messageRequest = Some False"
    and "\<not> cache_IsNoCache env"
    and "CreateChatCompletionStream env
           ((withSeed env c (buildRequest c (withDefaultModel c messageRequest) msgs))
              \<lparr>reqStream := True\<rparr>) = Inr (chunks, EOF)"
    and "appendMessages emptyMessage chunks = Inr m"
    and "gzip_json_encode env chunks = Inr buf"
  shows "filter isCacheGet (events (Call env c n messageRequest)) = [] \<and>
         filter isCacheStore (events (Call env c n messageRequest)) =
           [CacheStore
              (cacheKey env c
                 (withSeed env c (buildRequest c (withDefaultModel c messageRequest) msgs)))
              buf]"
proof -
  let ?request = "buildRequest c (withDefaultModel c messageRequest) msgs"
  let ?key = "cacheKey env c (withSeed env c ?request)"
  let ?pre = "Status (submittedStatus (mintID n) ?request) #
              liveOpening (mintID n) (withSeed env c ?request) chunks @
              [CacheStore ?key buf, StreamClose]"
  have fc: "fromCache env c (withDefaultModel c messageRequest) (withSeed env c ?request) =
              ([], Inr None)"
    using assms(4,5) by (simp add: fromCache_def Cache_withDefaultModel)
  have st: "store env ?key chunks = ([CacheStore ?key buf], cache_Store env ?key buf)"
    using assms(5,8) by (simp add: store_def)
  have pre: "filter isCacheGet ?pre = [] \<and> filter isCacheStore ?pre = [CacheStore ?key buf]"
    by (simp add: filter_liveOpening submittedStatus_def)
  show ?thesis
  proof (cases "cache_Store env ?key buf")
    case (Some e)
    then have "events (Call env c n messageRequest) = ?pre"
      using Call_live[OF assms(1-3) fc assms(6,7), of n] st by (simp add: Let_def)
    with pre show ?thesis by simp
  next
    case None
    then have "Call env c n messageRequest = finish env (mintID n) (n + 1) ?pre chunks False"
      using Call_live[OF assms(1-3) fc assms(6,7), of n] st by (simp add: Let_def)
    with finish_events[of env "mintID n" "n + 1" ?pre chunks False]
    have "events (Call env c n messageRequest) = ?pre \<or>
          (\<exists>result. events (Call env c n messageRequest) =
             ?pre @ [Status (finalStatus (mintID n) chunks result False)])"
      by simp
    with pre show ?thesis by auto
  qed
qed

theorem request_cache_flag_skips_lookup_only_witness:
  "ValidAuth sampleClient = None \<and>
   toMessages sampleEnv (withDefaultModel sampleClient (sampleRequest\<lparr>Cache := Some False\<rparr>)) =
     Inr sampleCompiled \<and>
   sampleCompiled \<noteq> [] \<and>
   Cache (sampleRequest\<lparr>Cache := Some False\<rparr>) = Some False \<and>
   \<not> cache_IsNoCache sampleEnv \<and>
   CreateChatCompletionStream sampleEnv
     ((withSeed sampleEnv sampleClient
         (buildRequest sampleClient
            (withDefaultModel sampleClient (sampleRequest\<lparr>Cache := Some False\<rparr>)) sampleCompiled))
        \<lparr>reqStream := True\<rparr>) = Inr ([roleChunk ''assistant'', textChunk ''4''], EOF) \<and>
   appendMessages emptyMessage [roleChunk ''assistant'', textChunk ''4''] = Inr sampleAnswer \<and>
   gzip_json_encode sampleEnv [roleChunk ''assistant'', textChunk ''4''] = Inr [2] \<and>
   filter isCacheGet (events (Call sampleEnv sampleClient 0 (sampleRequest\<lparr>Cache := Some False\<rparr>))) = [] \<and>
   filter isCacheStore (events (Call sampleEnv sampleClient 0 (sampleRequest\<lparr>Cache := Some False\<rparr>))) =
     [CacheStore ''base'' [2]]"
proof -
  let ?r = "sampleRequest\<lparr>Cache := Some False\<rparr>"
  have h1: "ValidAuth sampleClient = None" by code_simp
  have h2: "toMessages sampleEnv (withDefaultModel sampleClient ?r) = Inr sampleCompiled"
    by code_simp
  have h3: "sampleCompiled \<noteq> []" by code_simp
  have h4: "Cache ?r = Some False" by code_simp
  have h5: "\<not> cache_IsNoCache sampleEnv" by code_simp
  have h6: "CreateChatCompletionStream sampleEnv
     ((withSeed sampleEnv sampleClient
         (buildRequest sampleClient (withDefaultModel sampleClient ?r) sampleCompiled))
        \<lparr>reqStream := True\<rparr>) = Inr ([roleChunk ''assistant'', textChunk ''4''], EOF)"
    by code_simp
  have h7: "appendMessages emptyMessage [roleChunk ''assistant'', textChunk ''4''] = Inr sampleAnswer"
    by code_simp
  have h8: "gzip_json_encode sampleEnv [roleChunk ''assistant'', textChunk ''4''] = Inr [2]"
    by code_simp
  have e: "cacheKey sampleEnv sampleClient
      (withSeed sampleEnv sampleClient
         (buildRequest sampleClient (withDefaultModel sampleClient ?r) sampleCompiled)) = ''base''"
    by code_simp
  show ?thesis
    using h1 h2 h3 h4 h5 h6 h7 h8
      request_cache_flag_skips_lookup_only [OF h1 h2 h3 h4 h5 h6 h7 h8, of 0]
    by (simp add: e)
qed


subsection \<open>A stream that fails\<close>

text \<open>
  Claim C5. On the live path, when the \<^verbatim>\<open>Recv\<close> of the stream returns an error other
  than end-of-stream (after chunks that fold without a panic), \<^verbatim>\<open>Call\<close> returns that
  error, having closed the stream and written nothing to the cache store; the stream is
  opened once, whatever its end; and a write to the cache store happens only when the
  stream reached its end.
\<close>

theorem stream_error_fails_without_store:
  assumes "ValidAuth c = None"
    and "toMessages env (withDefaultModel c messageRequest) = Inr msgs"
    and "msgs \<noteq> []"
    and "fromCache env c (withDefaultModel c messageRequest)
           (withSeed env c (buildRequest c (withDefaultModel c messageRequest) msgs)) =
           (gevs, Inr None)"
    and "CreateChatCompletionStream env
           ((withSeed env c (buildRequest c (withDefaultModel c messageRequest) msgs))
              \<lparr>reqStream := True\<rparr>) = Inr (chunks, fin)"
    and "appendMessages emptyMessage chunks = Inr m"
  shows "(fin = RecvError e \<longrightarrow>
            returned (Call env c n messageRequest) = Inl e \<and>
            events (Call env c n messageRequest) =
              Status (submittedStatus (mintID n)
                (buildRequest c (withDefaultModel c messageRequest) msgs)) # gevs @
              liveOpening (mintID n)
                (withSeed env c (buildRequest c (withDefaultModel c messageRequest) msgs)) chunks @
              [StreamClose] \<and>
            filter isCacheStore (events (Call env c n messageRequest)) = []) \<and>
         length (filter isCreateStream (events (Call env c n messageRequest))) = 1 \<and>
         (filter isCacheStore (events (Call env c n messageRequest)) \<noteq> [] \<longrightarrow> fin = EOF)"
proof -
  let ?request = "buildRequest c (withDefaultModel c messageRequest) msgs"
  let ?request' = "withSeed env c ?request"
  let ?pre = "Status (submittedStatus (mintID n) ?request) # gevs @
              liveOpening (mintID n) ?request' chunks"
  note live = Call_live[OF assms, of n, unfolded Let_def]
  note g = fromCache_None_filters(1,2)[OF assms(4)]
  have pre_store: "filter isCacheStore ?pre = []"
    by (simp add: g filter_liveOpening)
  have pre_create: "length (filter isCreateStream ?pre) = 1"
    by (simp add: g filter_liveOpening)
  show ?thesis
  proof (cases fin)
    case (RecvError e')
    then have c: "Call env c n messageRequest =
        \<lparr>events = ?pre @ [StreamClose], counter = n + 1, returned = Inl e'\<rparr>"
      using live by simp
    show ?thesis using RecvError pre_store pre_create by (simp add: c)
  next
    case EOF
    let ?evs = "?pre @ fst (store env (cacheKey env c ?request') chunks) @ [StreamClose]"
    have evs_create: "length (filter isCreateStream ?evs) = 1"
      using pre_create by (simp add: store_filters)
    have "events (Call env c n messageRequest) = ?evs \<or>
          (\<exists>result. events (Call env c n messageRequest) =
             ?evs @ [Status (finalStatus (mintID n) chunks result False)])"
    proof (cases "snd (store env (cacheKey env c ?request') chunks)")
      case None
      then have "Call env c n messageRequest = finish env (mintID n) (n + 1) ?evs chunks False"
        using live EOF by simp
      with finish_events[of env "mintID n" "n + 1" ?evs chunks False] show ?thesis by simp
    next
      case (Some e')
      then show ?thesis using live EOF by simp
    qed
    then have "length (filter isCreateStream (events (Call env c n messageRequest))) = 1"
      using evs_create by auto
    then show ?thesis using EOF by simp
  qed
qed

theorem stream_error_fails_without_store_witness:
  "ValidAuth sampleClient = None \<and>
   toMessages brokenStreamEnv (withDefaultModel sampleClient sampleRequest) = Inr sampleCompiled \<and>
   sampleCompiled \<noteq> [] \<and>
   fromCache brokenStreamEnv sampleClient (withDefaultModel sampleClient sampleRequest)
     (withSeed brokenStreamEnv sampleClient
        (buildRequest sampleClient (withDefaultModel sampleClient sampleRequest) sampleCompiled)) =
     ([CacheGet ''base''], Inr None) \<and>
   CreateChatCompletionStream brokenStreamEnv
     ((withSeed brokenStreamEnv sampleClient
         (buildRequest sampleClient (withDefaultModel sampleClient sampleRequest) sampleCompiled))
        \<lparr>reqStream := True\<rparr>) =
     Inr ([roleChunk ''assistant''], RecvError (Upstream ''connection reset'')) \<and>
   appendMessages emptyMessage [roleChunk ''assistant''] =
     Inr (emptyMessage\<lparr>Role := ''assistant''\<rparr>) \<and>
   returned (Call brokenStreamEnv sampleClient 0 sampleRequest) =
     Inl (Upstream ''connection reset'') \<and>
   filter isCacheStore (events (Call brokenStreamEnv sampleClient 0 sampleRequest)) = [] \<and>
   length (filter isCreateStream (events (Call brokenStreamEnv sampleClient 0 sampleRequest))) = 1"
proof -
  have h1: "ValidAuth sampleClient = None" by code_simp
  have h2: "toMessages brokenStreamEnv (withDefaultModel sampleClient sampleRequest) =
      Inr sampleCompiled" by code_simp
  have h3: "sampleCompiled \<noteq> []" by code_simp
  have h4: "fromCache brokenStreamEnv sampleClient (withDefaultModel sampleClient sampleRequest)
     (withSeed brokenStreamEnv sampleClient
        (buildRequest sampleClient (withDefaultModel sampleClient sampleRequest) sampleCompiled)) =
     ([CacheGet ''base''], Inr None)" by code_simp
  have h5: "CreateChatCompletionStream brokenStreamEnv
     ((withSeed brokenStreamEnv sampleClient
         (buildRequest sampleClient (withDefaultModel sampleClient sampleRequest) sampleCompiled))
        \<lparr>reqStream := True\<rparr>) =
     Inr ([roleChunk ''assistant''], RecvError (Upstream ''connection reset''))" by code_simp
  have h6: "appendMessages emptyMessage [roleChunk ''assistant''] =
     Inr (emptyMessage\<lparr>Role := ''assistant''\<rparr>)" by code_simp
  from stream_error_fails_without_store [OF h1 h2 h3 h4 h5 h6, of "Upstream ''connection reset''" 0]
  have "returned (Call brokenStreamEnv sampleClient 0 sampleRequest) =
          Inl (Upstream ''connection reset'') \<and>
        filter isCacheStore (events (Call brokenStreamEnv sampleClient 0 sampleRequest)) = [] \<and>
        length (filter isCreateStream (events (Call brokenStreamEnv sampleClient 0 sampleRequest))) = 1"
    by blast
  with h1 h2 h3 h4 h5 h6 show ?thesis by blast
qed


end
